theory Spec2Isabelle
  imports Complex_Main "HOL-Library.Sublist"
begin

section \<open>Python values\<close>

text \<open>
  A Python \<open>str\<close> is a sequence of Unicode code points. \<open>str\<close> embeds an ASCII literal;
  a character outside ASCII (and the quote characters) is written as its code point.
\<close>

type_synonym pystr = "nat list"

definition str :: "string \<Rightarrow> pystr" where
  "str cs = map of_char cs"

text \<open>
  \<open>float\<close> values are idealised as rationals: the modelled code copies and compares
  them; the only arithmetic is \<open>discount_percentage\<close>. A \<open>datetime\<close> is the number of
  microseconds since 1970-01-01T00:00:00.
\<close>

type_synonym pyfloat = rat
type_synonym pydatetime = int

text \<open>
  The values that the tools put into result dictionaries. \<open>PIsoformat t\<close> is the \<open>str\<close>
  that \<open>t.isoformat()\<close> returns for the instant \<open>t\<close>; a \<open>dict\<close> keeps its insertion order.
\<close>

datatype pyval =
    PNone
  | PBool bool
  | PInt int
  | PFloat pyfloat
  | PStr pystr
  | PDatetime pydatetime
  | PIsoformat pydatetime
  | PList "pyval list"
  | PDict "(pystr \<times> pyval) list"

datatype exn =
    KeyError pystr
  | ValueError pystr
  | TypeError pystr
  | ServerError pystr
  | Exception pystr

text \<open>\<open>str(e)\<close>: a \<open>KeyError\<close> prints the \<open>repr\<close> of the missing key.\<close>

fun exn_str :: "exn \<Rightarrow> pystr" where
  "exn_str (KeyError k) = [39] @ k @ [39]"
| "exn_str (ValueError m) = m"
| "exn_str (TypeError m) = m"
| "exn_str (ServerError m) = m"
| "exn_str (Exception m) = m"

text \<open>\<open>needle in haystack\<close> on two \<open>str\<close>: the needle occurs as a contiguous run.\<close>

fun py_in :: "pystr \<Rightarrow> pystr \<Rightarrow> bool" where
  "py_in xs [] = (xs = [])"
| "py_in xs (y # ys) = (prefix xs (y # ys) \<or> py_in xs ys)"

text \<open>\<open>xs[:n]\<close>: a negative bound counts from the end.\<close>

definition slice_to :: "int \<Rightarrow> 'a list \<Rightarrow> 'a list" where
  "slice_to n xs = (if 0 \<le> n then take (nat n) xs else take (length xs - nat (- n)) xs)"

text \<open>Truthiness of \<open>d.get(k)\<close>: an absent key gives \<open>None\<close>.\<close>

fun truthy_str :: "pystr option \<Rightarrow> bool" where
  "truthy_str None = False"
| "truthy_str (Some s) = (s \<noteq> [])"

fun truthy_float :: "pyfloat option \<Rightarrow> bool" where
  "truthy_float None = False"
| "truthy_float (Some x) = (x \<noteq> 0)"

fun truthy_bool :: "bool option \<Rightarrow> bool" where
  "truthy_bool None = False"
| "truthy_bool (Some b) = b"

fun opt_str :: "pystr option \<Rightarrow> pyval" where
  "opt_str None = PNone"
| "opt_str (Some s) = PStr s"

fun opt_float :: "pyfloat option \<Rightarrow> pyval" where
  "opt_float None = PNone"
| "opt_float (Some x) = PFloat x"

section \<open>Domain models (utils/models.py)\<close>

datatype OrderStatus = PENDING | CONFIRMED | PROCESSING | SHIPPED | DELIVERED | CANCELLED | REFUNDED

fun OrderStatus_value :: "OrderStatus \<Rightarrow> pystr" where
  "OrderStatus_value PENDING = str ''pending''"
| "OrderStatus_value CONFIRMED = str ''confirmed''"
| "OrderStatus_value PROCESSING = str ''processing''"
| "OrderStatus_value SHIPPED = str ''shipped''"
| "OrderStatus_value DELIVERED = str ''delivered''"
| "OrderStatus_value CANCELLED = str ''cancelled''"
| "OrderStatus_value REFUNDED = str ''refunded''"

datatype ProductCategory = ELECTRONICS | CLOTHING | BOOKS | HOME | SPORTS | BEAUTY | TOYS | FOOD

fun ProductCategory_value :: "ProductCategory \<Rightarrow> pystr" where
  "ProductCategory_value ELECTRONICS = str ''electronics''"
| "ProductCategory_value CLOTHING = str ''clothing''"
| "ProductCategory_value BOOKS = str ''books''"
| "ProductCategory_value HOME = str ''home''"
| "ProductCategory_value SPORTS = str ''sports''"
| "ProductCategory_value BEAUTY = str ''beauty''"
| "ProductCategory_value TOYS = str ''toys''"
| "ProductCategory_value FOOD = str ''food''"

text \<open>\<open>ProductCategory(v)\<close>: the member whose value is \<open>v\<close>; \<open>None\<close> stands for the \<open>ValueError\<close>.\<close>

definition ProductCategory_of :: "pystr \<Rightarrow> ProductCategory option" where
  "ProductCategory_of v =
     find (\<lambda>c. ProductCategory_value c = v)
       [ELECTRONICS, CLOTHING, BOOKS, HOME, SPORTS, BEAUTY, TOYS, FOOD]"

record ProductReview =
  r_reviewer_name :: pystr
  r_rating :: pyfloat
  r_comment :: pystr
  r_verified_purchase :: bool
  r_date :: pystr

record Product =
  p_id :: pystr
  p_name :: pystr
  p_description :: pystr
  p_category :: ProductCategory
  p_price :: pyfloat
  p_original_price :: "pyfloat option"
  p_stock :: int
  p_brand :: pystr
  p_sku :: pystr
  p_rating :: pyfloat
  p_review_count :: int
  p_reviews :: "ProductReview list"
  p_tags :: "pystr list"
  p_image_url :: pystr
  p_in_stock :: bool
  p_specifications :: "(pystr \<times> pystr) list"

text \<open>\<open>round(x, 1)\<close>, on rationals: to the nearest tenth, a tie to the even neighbour.\<close>

definition round1 :: "pyfloat \<Rightarrow> pyfloat" where
  "round1 x =
     (let y = x * 10; f = \<lfloor>y\<rfloor>; d = y - of_int f
      in of_int (if d < 1 / 2 then f else if 1 / 2 < d then f + 1
                 else if even f then f else f + 1) / 10)"

definition discount_percentage :: "Product \<Rightarrow> pyfloat option" where
  "discount_percentage p =
     (case p_original_price p of
        None \<Rightarrow> None
      | Some op \<Rightarrow>
          if op \<noteq> 0 \<and> p_price p < op then Some (round1 ((1 - p_price p / op) * 100))
          else None)"

record OrderItem =
  i_product_id :: pystr
  i_product_name :: pystr
  i_quantity :: int
  i_unit_price :: pyfloat
  i_total_price :: pyfloat

record ShippingAddress =
  s_full_name :: pystr
  s_street :: pystr
  s_city :: pystr
  s_state :: pystr
  s_postal_code :: pystr
  s_country :: pystr

record TrackingEvent =
  e_timestamp :: pydatetime
  e_status :: pystr
  e_location :: pystr
  e_description :: pystr

record Order =
  o_id :: pystr
  o_customer_id :: pystr
  o_customer_email :: pystr
  o_items :: "OrderItem list"
  o_status :: OrderStatus
  o_shipping_address :: ShippingAddress
  o_subtotal :: pyfloat
  o_shipping_cost :: pyfloat
  o_tax :: pyfloat
  o_total :: pyfloat
  o_created_at :: pydatetime
  o_updated_at :: pydatetime
  o_tracking_number :: "pystr option"
  o_tracking_events :: "TrackingEvent list"
  o_estimated_delivery :: "pystr option"
  o_notes :: "pystr option"

record Customer =
  c_id :: pystr
  c_email :: pystr
  c_full_name :: pystr
  c_phone :: "pystr option"
  c_total_orders :: int
  c_total_spent :: pyfloat
  c_loyalty_points :: int
  c_created_at :: pydatetime

text \<open>\<open>model_dump()\<close>: the fields in declaration order; an enum member is its \<open>str\<close> value.\<close>

definition ProductReview_model_dump :: "ProductReview \<Rightarrow> pyval" where
  "ProductReview_model_dump r = PDict
     [(str ''reviewer_name'', PStr (r_reviewer_name r)),
      (str ''rating'', PFloat (r_rating r)),
      (str ''comment'', PStr (r_comment r)),
      (str ''verified_purchase'', PBool (r_verified_purchase r)),
      (str ''date'', PStr (r_date r))]"

definition Product_model_dump :: "Product \<Rightarrow> pyval" where
  "Product_model_dump p = PDict
     [(str ''id'', PStr (p_id p)),
      (str ''name'', PStr (p_name p)),
      (str ''description'', PStr (p_description p)),
      (str ''category'', PStr (ProductCategory_value (p_category p))),
      (str ''price'', PFloat (p_price p)),
      (str ''original_price'', opt_float (p_original_price p)),
      (str ''stock'', PInt (p_stock p)),
      (str ''brand'', PStr (p_brand p)),
      (str ''sku'', PStr (p_sku p)),
      (str ''rating'', PFloat (p_rating p)),
      (str ''review_count'', PInt (p_review_count p)),
      (str ''reviews'', PList (map ProductReview_model_dump (p_reviews p))),
      (str ''tags'', PList (map PStr (p_tags p))),
      (str ''image_url'', PStr (p_image_url p)),
      (str ''in_stock'', PBool (p_in_stock p)),
      (str ''specifications'', PDict (map (\<lambda>(k, v). (k, PStr v)) (p_specifications p)))]"

definition Customer_model_dump :: "Customer \<Rightarrow> pyval" where
  "Customer_model_dump c = PDict
     [(str ''id'', PStr (c_id c)),
      (str ''email'', PStr (c_email c)),
      (str ''full_name'', PStr (c_full_name c)),
      (str ''phone'', opt_str (c_phone c)),
      (str ''total_orders'', PInt (c_total_orders c)),
      (str ''total_spent'', PFloat (c_total_spent c)),
      (str ''loyalty_points'', PInt (c_loyalty_points c)),
      (str ''created_at'', PDatetime (c_created_at c))]"

section \<open>The mock data set (data/mock_data.py)\<close>

text \<open>
  \<open>datetime(y, m, d)\<close> and \<open>timedelta\<close>, in microseconds. \<open>datetime.utcnow()\<close> reads the
  wall clock; the orders are built from thirteen readings, taken while the module is
  loaded: \<open>utcnow k\<close> is reading number \<open>k\<close>.
\<close>

definition datetime :: "int \<Rightarrow> int \<Rightarrow> int \<Rightarrow> pydatetime" where
  "datetime y m d =
     (let y' = (if m \<le> 2 then y - 1 else y);
          era = y' div 400;
          yoe = y' - era * 400;
          doy = (153 * ((m + 9) mod 12) + 2) div 5 + d - 1;
          doe = yoe * 365 + yoe div 4 - yoe div 100 + doy
      in (era * 146097 + doe - 719468) * 86400000000)"

definition timedelta_days :: "int \<Rightarrow> int" where
  "timedelta_days n = n * 86400000000"

definition timedelta_hours :: "int \<Rightarrow> int" where
  "timedelta_hours n = n * 3600000000"

definition prod_001 :: "Product" where
  "prod_001 =
   \<lparr>p_id = str ''prod-001'',
    p_name = (str ''Sony WH-1000XM5 Kablosuz Kulakl'' @ [305] @ str ''k''),
    p_description = (str ''End'' @ [252] @ str ''strinin en iyi g'' @ [252] @ str ''r'' @ [252] @ str ''lt'' @ [252] @ str '' engelleme teknolojisi. 30 saat pil '' @ [246] @ str ''mr'' @ [252] @ str '', h'' @ [305] @ str ''zl'' @ [305] @ str '' '' @ [351] @ str ''arj deste'' @ [287] @ str ''i ve kristal netli'' @ [287] @ str ''inde ses kalitesi.''),
    p_category = ELECTRONICS,
    p_price = 899.99,
    p_original_price = Some 1099.99,
    p_stock = 45,
    p_brand = str ''Sony'',
    p_sku = str ''SONY-WH1000XM5-BLK'',
    p_rating = 4.8,
    p_review_count = 1247,
    p_reviews = [\<lparr>r_reviewer_name = str ''Ahmet Y.'',
    r_rating = 5,
    r_comment = (str ''Muhte'' @ [351] @ str ''em g'' @ [252] @ str ''r'' @ [252] @ str ''lt'' @ [252] @ str '' engelleme. U'' @ [231] @ str ''u'' @ [351] @ str ''larda vazge'' @ [231] @ str ''ilmez oldu.''),
    r_verified_purchase = True,
    r_date = str ''2024-11-15''\<rparr>,
      \<lparr>r_reviewer_name = str ''Zeynep K.'',
    r_rating = 4.5,
    r_comment = (str ''Ses kalitesi harika ama biraz a'' @ [287, 305] @ str ''r.''),
    r_verified_purchase = True,
    r_date = str ''2024-12-01''\<rparr>],
    p_tags = [(str ''kulakl'' @ [305] @ str ''k''),
      str ''bluetooth'',
      (str ''g'' @ [252] @ str ''r'' @ [252] @ str ''lt'' @ [252] @ str '' engelleme''),
      str ''sony'',
      str ''premium''],
    p_image_url = [],
    p_in_stock = True,
    p_specifications = [((str ''Ba'' @ [287] @ str ''lant'' @ [305]), str ''Bluetooth 5.2''),
      ((str ''Pil '' @ [214] @ str ''mr'' @ [252]), str ''30 saat''),
      ((str ''A'' @ [287, 305] @ str ''rl'' @ [305] @ str ''k''), str ''250g''),
      (str ''Renk'', str ''Siyah''),
      (str ''Garanti'', (str ''2 y'' @ [305] @ str ''l''))]\<rparr>"

definition prod_002 :: "Product" where
  "prod_002 =
   \<lparr>p_id = str ''prod-002'',
    p_name = (str ''Apple MacBook Pro 14'' @ [34] @ str '' M3 Pro''),
    p_description = (str ''M3 Pro '' @ [231] @ str ''ipiyle profesyonel performans. 18 saate kadar pil '' @ [246] @ str ''mr'' @ [252] @ str '', Liquid Retina XDR ekran.''),
    p_category = ELECTRONICS,
    p_price = 54999.99,
    p_original_price = Some 59999.99,
    p_stock = 12,
    p_brand = str ''Apple'',
    p_sku = str ''APPLE-MBP14-M3PRO-SLV'',
    p_rating = 4.9,
    p_review_count = 567,
    p_reviews = [\<lparr>r_reviewer_name = str ''Burak S.'',
    r_rating = 5,
    r_comment = (str ''Geli'' @ [351] @ str ''tirici olarak '' @ [231] @ str ''ok verimli. Build s'' @ [252] @ str ''releri inan'' @ [305] @ str ''lmaz h'' @ [305] @ str ''zl'' @ [305] @ str ''.''),
    r_verified_purchase = True,
    r_date = str ''2024-10-20''\<rparr>],
    p_tags = [str ''laptop'',
      str ''apple'',
      str ''macbook'',
      str ''m3'',
      str ''profesyonel''],
    p_image_url = [],
    p_in_stock = True,
    p_specifications = [(([304, 351] @ str ''lemci''), str ''Apple M3 Pro''),
      (str ''RAM'', str ''18GB''),
      (str ''Depolama'', str ''512GB SSD''),
      (str ''Ekran'', (str ''14.2'' @ [34] @ str '' Liquid Retina XDR'')),
      (str ''Pil'', str ''18 saat'')]\<rparr>"

definition prod_003 :: "Product" where
  "prod_003 =
   \<lparr>p_id = str ''prod-003'',
    p_name = (str ''Nike Air Max 270 Spor Ayakkab'' @ [305]),
    p_description = (str ''Max Air yast'' @ [305] @ str ''klama ile maksimum konfor. Nefes alan mesh '' @ [252] @ str ''st y'' @ [252] @ str ''zey.''),
    p_category = CLOTHING,
    p_price = 2199.99,
    p_original_price = Some 2799.99,
    p_stock = 78,
    p_brand = str ''Nike'',
    p_sku = str ''NIKE-AM270-WHT-42'',
    p_rating = 4.6,
    p_review_count = 3421,
    p_reviews = [\<lparr>r_reviewer_name = str ''Fatma B.'',
    r_rating = 4,
    r_comment = ([199] @ str ''ok rahat, sehirde g'' @ [252] @ str ''nl'' @ [252] @ str ''k kullan'' @ [305] @ str ''m i'' @ [231] @ str ''in m'' @ [252] @ str ''kemmel.''),
    r_verified_purchase = True,
    r_date = str ''2024-11-28''\<rparr>,
      \<lparr>r_reviewer_name = str ''Mehmet A.'',
    r_rating = 5,
    r_comment = (str ''Fiyat performans a'' @ [231, 305] @ str ''s'' @ [305] @ str ''ndan harika.''),
    r_verified_purchase = True,
    r_date = str ''2024-12-10''\<rparr>],
    p_tags = [(str ''ayakkab'' @ [305]),
      str ''spor'',
      str ''nike'',
      (str ''ko'' @ [351] @ str ''u''),
      str ''rahat''],
    p_image_url = [],
    p_in_stock = True,
    p_specifications = [(str ''Numara'', str ''36-47''),
      (str ''Malzeme'', str ''Mesh + Deri''),
      (str ''Taban'', str ''Foam + Air Max''),
      ((str ''Kullan'' @ [305] @ str ''m''), (str ''G'' @ [252] @ str ''nl'' @ [252] @ str ''k / Ko'' @ [351] @ str ''u''))]\<rparr>"

definition prod_004 :: "Product" where
  "prod_004 =
   \<lparr>p_id = str ''prod-004'',
    p_name = str ''Kindle Paperwhite (11. Nesil)'',
    p_description = (str ''300 ppi ekran, 10 hafta pil '' @ [246] @ str ''mr'' @ [252] @ str '', su ge'' @ [231] @ str ''irmez tasar'' @ [305] @ str ''m. 8GB depolama.''),
    p_category = ELECTRONICS,
    p_price = 1299.99,
    p_original_price = Some 1499.99,
    p_stock = 156,
    p_brand = str ''Amazon'',
    p_sku = str ''AMZN-KINDLE-PW11-BLK'',
    p_rating = 4.7,
    p_review_count = 8934,
    p_reviews = [\<lparr>r_reviewer_name = str ''Elif C.'',
    r_rating = 5,
    r_comment = (str ''Kitap okumay'' @ [305] @ str '' tamamen yeniden ke'' @ [351] @ str ''fettim. G'' @ [246] @ str ''zler yorulmuyor.''),
    r_verified_purchase = True,
    r_date = str ''2024-09-15''\<rparr>],
    p_tags = [str ''e-kitap'',
      str ''okuyucu'',
      str ''kindle'',
      str ''amazon'',
      str ''okuma''],
    p_image_url = [],
    p_in_stock = True,
    p_specifications = [(str ''Ekran'', (str ''6.8'' @ [34] @ str '' 300ppi E Ink'')),
      (str ''Depolama'', str ''8GB''),
      ((str ''Pil '' @ [214] @ str ''mr'' @ [252]), str ''10 hafta''),
      ((str ''Su Ge'' @ [231] @ str ''irmezlik''), str ''IPX8'')]\<rparr>"

definition prod_005 :: "Product" where
  "prod_005 =
   \<lparr>p_id = str ''prod-005'',
    p_name = (str ''Dyson V15 Detect Kablosuz S'' @ [252] @ str ''p'' @ [252] @ str ''rge''),
    p_description = (str ''Lazer toz tespiti teknolojisi. 60 dakika pil '' @ [246] @ str ''mr'' @ [252] @ str '', HEPA filtrasyon.''),
    p_category = HOME,
    p_price = 12999.99,
    p_original_price = Some 14999.99,
    p_stock = 23,
    p_brand = str ''Dyson'',
    p_sku = str ''DYSON-V15-DETECT'',
    p_rating = 4.8,
    p_review_count = 2156,
    p_reviews = [],
    p_tags = [(str ''s'' @ [252] @ str ''p'' @ [252] @ str ''rge''),
      str ''kablosuz'',
      str ''dyson'',
      str ''temizlik'',
      str ''ev''],
    p_image_url = [],
    p_in_stock = True,
    p_specifications = [((str ''Pil '' @ [214] @ str ''mr'' @ [252]), str ''60 dakika''),
      ((str ''Emme G'' @ [252] @ str ''c'' @ [252]), str ''230AW''),
      (str ''Filtre'', str ''HEPA''),
      ((str ''A'' @ [287, 305] @ str ''rl'' @ [305] @ str ''k''), str ''3.1kg'')]\<rparr>"

definition prod_006 :: "Product" where
  "prod_006 =
   \<lparr>p_id = str ''prod-006'',
    p_name = str ''Samsung Galaxy S24 Ultra'',
    p_description = str ''200MP kamera, 5000mAh batarya, Snapdragon 8 Gen 3, S Pen dahil.'',
    p_category = ELECTRONICS,
    p_price = 47999.99,
    p_original_price = Some 52999.99,
    p_stock = 34,
    p_brand = str ''Samsung'',
    p_sku = str ''SAMSUNG-S24U-BLK-256'',
    p_rating = 4.7,
    p_review_count = 4521,
    p_reviews = [\<lparr>r_reviewer_name = str ''Can T.'',
    r_rating = 5,
    r_comment = (str ''Kamera kalitesi profesyonel foto'' @ [287] @ str ''raf makineleriyle yar'' @ [305, 351, 305] @ str ''yor.''),
    r_verified_purchase = True,
    r_date = str ''2024-10-05''\<rparr>],
    p_tags = [str ''telefon'',
      str ''samsung'',
      str ''galaxy'',
      str ''android'',
      str ''kamera''],
    p_image_url = [],
    p_in_stock = True,
    p_specifications = [(([304, 351] @ str ''lemci''), str ''Snapdragon 8 Gen 3''),
      (str ''RAM'', str ''12GB''),
      (str ''Depolama'', str ''256GB''),
      (str ''Kamera'', str ''200MP + 12MP + 10MP + 50MP''),
      (str ''Batarya'', str ''5000mAh''),
      (str ''Ekran'', (str ''6.8'' @ [34] @ str '' Dynamic AMOLED 2X''))]\<rparr>"

definition prod_007 :: "Product" where
  "prod_007 =
   \<lparr>p_id = str ''prod-007'',
    p_name = (str ''Levi'' @ [39] @ str ''s 501 Original Erkek Jean''),
    p_description = ([304] @ str ''konik d'' @ [252] @ str ''z kesim Levi'' @ [39] @ str ''s 501. %100 pamuk, dayan'' @ [305] @ str ''kl'' @ [305] @ str '' ve zamans'' @ [305] @ str ''z stil.''),
    p_category = CLOTHING,
    p_price = 899.99,
    p_original_price = Some 1099.99,
    p_stock = 0,
    p_brand = (str ''Levi'' @ [39] @ str ''s''),
    p_sku = str ''LEVIS-501-32X32-BLU'',
    p_rating = 4.5,
    p_review_count = 12453,
    p_reviews = [],
    p_tags = [str ''jean'',
      str ''kot'',
      str ''erkek'',
      (str ''levi'' @ [39] @ str ''s''),
      str ''klasik''],
    p_image_url = [],
    p_in_stock = False,
    p_specifications = [(str ''Beden'', (str ''T'' @ [252] @ str ''m bedenler'')),
      (str ''Materyal'', str ''%100 Pamuk''),
      (str ''Kesim'', (str ''D'' @ [252] @ str ''z'')),
      (str ''Renk'', str ''Mavi'')]\<rparr>"

definition prod_008 :: "Product" where
  "prod_008 =
   \<lparr>p_id = str ''prod-008'',
    p_name = str ''Philips Hue Starter Kit (4 Ampul + Bridge)'',
    p_description = (str ''Ak'' @ [305] @ str ''ll'' @ [305] @ str '' ev ayd'' @ [305] @ str ''nlatma sistemi. 16 milyon renk, uygulama ile kontrol.''),
    p_category = HOME,
    p_price = 2499.99,
    p_original_price = Some 2999.99,
    p_stock = 67,
    p_brand = str ''Philips'',
    p_sku = str ''PHILIPS-HUE-SK4'',
    p_rating = 4.4,
    p_review_count = 5671,
    p_reviews = [],
    p_tags = [(str ''ak'' @ [305] @ str ''ll'' @ [305] @ str '' ev''),
      (str ''ayd'' @ [305] @ str ''nlatma''),
      str ''philips'',
      str ''hue'',
      str ''otomasyon''],
    p_image_url = [],
    p_in_stock = True,
    p_specifications = [((str ''Ampul Say'' @ [305] @ str ''s'' @ [305]), str ''4''),
      (str ''Protokol'', str ''Zigbee / Bluetooth''),
      (str ''Renk'', str ''16 milyon''),
      ((str ''G'' @ [252, 231]), (str ''9W (75W e'' @ [351] @ str ''de'' @ [287] @ str ''eri)''))]\<rparr>"

definition prod_009 :: "Product" where
  "prod_009 =
   \<lparr>p_id = str ''prod-009'',
    p_name = (str ''Atomic Habits - James Clear (T'' @ [252] @ str ''rk'' @ [231] @ str ''e)''),
    p_description = (str ''K'' @ [252, 231, 252] @ str ''k al'' @ [305, 351] @ str ''kanl'' @ [305] @ str ''klar'' @ [305] @ str ''n b'' @ [252] @ str ''y'' @ [252] @ str ''k etkisi. 10 milyonun '' @ [252] @ str ''zerinde kopya satan d'' @ [252] @ str ''nya genelinde bestseller.''),
    p_category = BOOKS,
    p_price = 89.99,
    p_original_price = Some 119.99,
    p_stock = 234,
    p_brand = str ''Olimpos'',
    p_sku = str ''BOOK-ATOMIC-HABITS-TR'',
    p_rating = 4.9,
    p_review_count = 34521,
    p_reviews = [],
    p_tags = [str ''kitap'',
      (str ''ki'' @ [351] @ str ''isel geli'' @ [351] @ str ''im''),
      (str ''al'' @ [305, 351] @ str ''kanl'' @ [305] @ str ''k''),
      str ''bestseller''],
    p_image_url = [],
    p_in_stock = True,
    p_specifications = [((str ''Sayfa Say'' @ [305] @ str ''s'' @ [305]), str ''320''),
      (str ''Dil'', (str ''T'' @ [252] @ str ''rk'' @ [231] @ str ''e'')),
      ((str ''Yay'' @ [305] @ str ''nevi''), str ''Olimpos''),
      ((str ''Bask'' @ [305]), (str ''15. Bask'' @ [305]))]\<rparr>"

definition prod_010 :: "Product" where
  "prod_010 =
   \<lparr>p_id = str ''prod-010'',
    p_name = str ''Nespresso Vertuo Next Kahve Makinesi'',
    p_description = (str ''Centrifusion teknolojisi ile m'' @ [252] @ str ''kemmel espresso. 5 bardak boyutu, ak'' @ [305] @ str ''ll'' @ [305] @ str '' kaps'' @ [252] @ str ''l tan'' @ [305] @ str ''ma.''),
    p_category = HOME,
    p_price = 3299.99,
    p_original_price = Some 3999.99,
    p_stock = 45,
    p_brand = str ''Nespresso'',
    p_sku = str ''NESPRESSO-VERTUO-NEXT'',
    p_rating = 4.6,
    p_review_count = 7823,
    p_reviews = [],
    p_tags = [str ''kahve'',
      str ''nespresso'',
      str ''espresso'',
      (str ''kaps'' @ [252] @ str ''l''),
      str ''mutfak''],
    p_image_url = [],
    p_in_stock = True,
    p_specifications = [(str ''Kapasite'', str ''1.1L''),
      ((str ''Bas'' @ [305] @ str ''n'' @ [231]), str ''19 bar''),
      ((str ''Is'' @ [305] @ str ''nma''), str ''30 saniye''),
      ((str ''Bardak Boyutlar'' @ [305]), (str ''5 farkl'' @ [305]))]\<rparr>"

definition PRODUCTS :: "Product list" where
  "PRODUCTS = [prod_001, prod_002, prod_003, prod_004, prod_005, prod_006, prod_007, prod_008, prod_009, prod_010]"

definition cust_001 :: "Customer" where
  "cust_001 =
   \<lparr>c_id = str ''cust-001'',
    c_email = str ''ahmet.yilmaz@example.com'',
    c_full_name = (str ''Ahmet Y'' @ [305] @ str ''lmaz''),
    c_phone = Some (str ''+90 532 123 4567''),
    c_total_orders = 8,
    c_total_spent = 12450.5,
    c_loyalty_points = 1245,
    c_created_at = datetime 2023 3 15\<rparr>"

definition cust_002 :: "Customer" where
  "cust_002 =
   \<lparr>c_id = str ''cust-002'',
    c_email = str ''zeynep.kaya@example.com'',
    c_full_name = str ''Zeynep Kaya'',
    c_phone = Some (str ''+90 543 987 6543''),
    c_total_orders = 3,
    c_total_spent = 3210,
    c_loyalty_points = 321,
    c_created_at = datetime 2024 1 8\<rparr>"

definition cust_003 :: "Customer" where
  "cust_003 =
   \<lparr>c_id = str ''cust-003'',
    c_email = str ''mehmet.demir@example.com'',
    c_full_name = str ''Mehmet Demir'',
    c_phone = Some (str ''+90 555 456 7890''),
    c_total_orders = 15,
    c_total_spent = 45670,
    c_loyalty_points = 4567,
    c_created_at = datetime 2022 7 22\<rparr>"

definition CUSTOMERS :: "Customer list" where
  "CUSTOMERS = [cust_001, cust_002, cust_003]"

definition ord_001 :: "(nat \<Rightarrow> int) \<Rightarrow> Order" where
  "ord_001 utcnow =
   \<lparr>o_id = str ''ord-001'',
    o_customer_id = str ''cust-001'',
    o_customer_email = str ''ahmet.yilmaz@example.com'',
    o_items = [\<lparr>i_product_id = str ''prod-001'',
    i_product_name = (str ''Sony WH-1000XM5 Kablosuz Kulakl'' @ [305] @ str ''k''),
    i_quantity = 1,
    i_unit_price = 899.99,
    i_total_price = 899.99\<rparr>],
    o_status = SHIPPED,
    o_shipping_address = \<lparr>s_full_name = (str ''Ahmet Y'' @ [305] @ str ''lmaz''),
    s_street = (str ''Atat'' @ [252] @ str ''rk Cad. No:42''),
    s_city = ([304] @ str ''stanbul''),
    s_state = ([304] @ str ''stanbul''),
    s_postal_code = str ''34000'',
    s_country = str ''TR''\<rparr>,
    o_subtotal = 899.99,
    o_shipping_cost = 0,
    o_tax = 161.99,
    o_total = 1061.98,
    o_created_at = (utcnow 0 - timedelta_days 3),
    o_updated_at = (utcnow 1 - timedelta_hours 12),
    o_tracking_number = Some (str ''TK123456789TR''),
    o_tracking_events = [\<lparr>e_timestamp = (utcnow 2 - timedelta_days 3),
    e_status = (str ''Sipari'' @ [351] @ str '' Al'' @ [305] @ str ''nd'' @ [305]),
    e_location = ([304] @ str ''stanbul Depo''),
    e_description = (str ''Sipari'' @ [351] @ str ''iniz sisteme kaydedildi'')\<rparr>,
      \<lparr>e_timestamp = (utcnow 3 - timedelta_days 2),
    e_status = str ''Kargoya Verildi'',
    e_location = ([304] @ str ''stanbul Da'' @ [287, 305] @ str ''t'' @ [305] @ str ''m Merkezi''),
    e_description = (str ''Paketiniz kargo firmas'' @ [305] @ str ''na teslim edildi'')\<rparr>,
      \<lparr>e_timestamp = (utcnow 4 - timedelta_hours 12),
    e_status = (str ''Da'' @ [287, 305] @ str ''t'' @ [305] @ str ''mda''),
    e_location = ([304] @ str ''stanbul Avrupa Yakas'' @ [305] @ str '' '' @ [350] @ str ''ube''),
    e_description = (str ''Paketiniz da'' @ [287, 305] @ str ''t'' @ [305] @ str ''m '' @ [351] @ str ''ubesine ula'' @ [351] @ str ''t'' @ [305])\<rparr>],
    o_estimated_delivery = Some (str ''2025-02-19''),
    o_notes = None\<rparr>"

definition ord_002 :: "(nat \<Rightarrow> int) \<Rightarrow> Order" where
  "ord_002 utcnow =
   \<lparr>o_id = str ''ord-002'',
    o_customer_id = str ''cust-001'',
    o_customer_email = str ''ahmet.yilmaz@example.com'',
    o_items = [\<lparr>i_product_id = str ''prod-009'',
    i_product_name = str ''Atomic Habits - James Clear'',
    i_quantity = 2,
    i_unit_price = 89.99,
    i_total_price = 179.98\<rparr>,
      \<lparr>i_product_id = str ''prod-004'',
    i_product_name = str ''Kindle Paperwhite (11. Nesil)'',
    i_quantity = 1,
    i_unit_price = 1299.99,
    i_total_price = 1299.99\<rparr>],
    o_status = DELIVERED,
    o_shipping_address = \<lparr>s_full_name = (str ''Ahmet Y'' @ [305] @ str ''lmaz''),
    s_street = (str ''Atat'' @ [252] @ str ''rk Cad. No:42''),
    s_city = ([304] @ str ''stanbul''),
    s_state = ([304] @ str ''stanbul''),
    s_postal_code = str ''34000'',
    s_country = str ''TR''\<rparr>,
    o_subtotal = 1479.97,
    o_shipping_cost = 0,
    o_tax = 266.39,
    o_total = 1746.36,
    o_created_at = (utcnow 5 - timedelta_days 15),
    o_updated_at = (utcnow 6 - timedelta_days 10),
    o_tracking_number = Some (str ''TK987654321TR''),
    o_tracking_events = [\<lparr>e_timestamp = (utcnow 7 - timedelta_days 15),
    e_status = (str ''Sipari'' @ [351] @ str '' Al'' @ [305] @ str ''nd'' @ [305]),
    e_location = ([304] @ str ''stanbul Depo''),
    e_description = (str ''Sipari'' @ [351] @ str ''iniz sisteme kaydedildi'')\<rparr>,
      \<lparr>e_timestamp = (utcnow 8 - timedelta_days 10),
    e_status = str ''Teslim Edildi'',
    e_location = ([304] @ str ''stanbul''),
    e_description = (str ''Paketiniz kap'' @ [305] @ str ''da teslim edildi'')\<rparr>],
    o_estimated_delivery = None,
    o_notes = None\<rparr>"

definition ord_003 :: "(nat \<Rightarrow> int) \<Rightarrow> Order" where
  "ord_003 utcnow =
   \<lparr>o_id = str ''ord-003'',
    o_customer_id = str ''cust-002'',
    o_customer_email = str ''zeynep.kaya@example.com'',
    o_items = [\<lparr>i_product_id = str ''prod-003'',
    i_product_name = (str ''Nike Air Max 270 Spor Ayakkab'' @ [305]),
    i_quantity = 1,
    i_unit_price = 2199.99,
    i_total_price = 2199.99\<rparr>],
    o_status = PROCESSING,
    o_shipping_address = \<lparr>s_full_name = str ''Zeynep Kaya'',
    s_street = (str ''Ba'' @ [287] @ str ''dat Cad. No:15''),
    s_city = ([304] @ str ''stanbul''),
    s_state = ([304] @ str ''stanbul''),
    s_postal_code = str ''34730'',
    s_country = str ''TR''\<rparr>,
    o_subtotal = 2199.99,
    o_shipping_cost = 0,
    o_tax = 396,
    o_total = 2595.99,
    o_created_at = (utcnow 9 - timedelta_hours 6),
    o_updated_at = (utcnow 10 - timedelta_hours 2),
    o_tracking_number = None,
    o_tracking_events = [],
    o_estimated_delivery = Some (str ''2025-02-20''),
    o_notes = None\<rparr>"

definition ord_004 :: "(nat \<Rightarrow> int) \<Rightarrow> Order" where
  "ord_004 utcnow =
   \<lparr>o_id = str ''ord-004'',
    o_customer_id = str ''cust-003'',
    o_customer_email = str ''mehmet.demir@example.com'',
    o_items = [\<lparr>i_product_id = str ''prod-002'',
    i_product_name = (str ''Apple MacBook Pro 14'' @ [34] @ str '' M3 Pro''),
    i_quantity = 1,
    i_unit_price = 54999.99,
    i_total_price = 54999.99\<rparr>],
    o_status = CONFIRMED,
    o_shipping_address = \<lparr>s_full_name = str ''Mehmet Demir'',
    s_street = str ''Cumhuriyet Mah. 456. Sok. No:7'',
    s_city = str ''Ankara'',
    s_state = str ''Ankara'',
    s_postal_code = str ''06000'',
    s_country = str ''TR''\<rparr>,
    o_subtotal = 54999.99,
    o_shipping_cost = 0,
    o_tax = 9899.99,
    o_total = 64899.98,
    o_created_at = (utcnow 11 - timedelta_hours 2),
    o_updated_at = (utcnow 12 - timedelta_hours 1),
    o_tracking_number = None,
    o_tracking_events = [],
    o_estimated_delivery = Some (str ''2025-02-22''),
    o_notes = None\<rparr>"

definition ORDERS :: "(nat \<Rightarrow> int) \<Rightarrow> Order list" where
  "ORDERS utcnow = [ord_001 utcnow, ord_002 utcnow, ord_003 utcnow, ord_004 utcnow]"

text \<open>The three module-level lists, as one store.\<close>

record store =
  st_products :: "Product list"
  st_orders :: "Order list"
  st_customers :: "Customer list"

definition mock_data :: "(nat \<Rightarrow> int) \<Rightarrow> store" where
  "mock_data utcnow =
     \<lparr>st_products = PRODUCTS, st_orders = ORDERS utcnow, st_customers = CUSTOMERS\<rparr>"

text \<open>
  The accessors. \<open>str.lower\<close> is the interpreter's; it is a parameter \<open>lower\<close> of every
  function that calls it.
\<close>

definition get_product_by_id :: "Product list \<Rightarrow> pystr \<Rightarrow> Product option" where
  "get_product_by_id ps product_id = find (\<lambda>p. p_id p = product_id) ps"

definition get_products_by_category :: "Product list \<Rightarrow> ProductCategory \<Rightarrow> Product list" where
  "get_products_by_category ps category = filter (\<lambda>p. p_category p = category) ps"

definition product_matches :: "(pystr \<Rightarrow> pystr) \<Rightarrow> pystr \<Rightarrow> Product \<Rightarrow> bool" where
  "product_matches lower query_lower product \<longleftrightarrow>
     py_in query_lower (lower (p_name product))
     \<or> py_in query_lower (lower (p_description product))
     \<or> list_ex (\<lambda>tag. py_in query_lower (lower tag)) (p_tags product)
     \<or> py_in query_lower (lower (p_brand product))"

text \<open>The loop of \<open>search_products\<close>: \<open>results\<close> is the list built so far.\<close>

fun search_loop :: "(pystr \<Rightarrow> pystr) \<Rightarrow> pystr \<Rightarrow> Product list \<Rightarrow> Product list \<Rightarrow> Product list" where
  "search_loop lower query_lower [] results = results"
| "search_loop lower query_lower (product # rest) results =
     search_loop lower query_lower rest
       (if product_matches lower query_lower product then results @ [product] else results)"

definition search_products :: "(pystr \<Rightarrow> pystr) \<Rightarrow> Product list \<Rightarrow> pystr \<Rightarrow> Product list" where
  "search_products lower ps query = search_loop lower (lower query) ps []"

definition get_order_by_id :: "Order list \<Rightarrow> pystr \<Rightarrow> Order option" where
  "get_order_by_id os order_id = find (\<lambda>ord. o_id ord = order_id) os"

definition get_orders_by_customer :: "Order list \<Rightarrow> pystr \<Rightarrow> Order list" where
  "get_orders_by_customer os customer_id = filter (\<lambda>ord. o_customer_id ord = customer_id) os"

definition get_orders_by_email :: "(pystr \<Rightarrow> pystr) \<Rightarrow> Order list \<Rightarrow> pystr \<Rightarrow> Order list" where
  "get_orders_by_email lower os email =
     filter (\<lambda>ord. lower (o_customer_email ord) = lower email) os"

definition get_customer_by_id :: "Customer list \<Rightarrow> pystr \<Rightarrow> Customer option" where
  "get_customer_by_id cs customer_id = find (\<lambda>c. c_id c = customer_id) cs"

definition get_customer_by_email :: "(pystr \<Rightarrow> pystr) \<Rightarrow> Customer list \<Rightarrow> pystr \<Rightarrow> Customer option" where
  "get_customer_by_email lower cs email = find (\<lambda>c. lower (c_email c) = lower email) cs"

section \<open>The MCP server (mcp_server/server.py)\<close>

text \<open>
  The \<open>arguments\<close> dictionary of a tool call, with the keys and value types that the
  tools' input schemas declare; \<open>None\<close> is an absent key.
\<close>

record tool_args =
  arg_query :: "pystr option"
  arg_category :: "pystr option"
  arg_max_price :: "pyfloat option"
  arg_min_rating :: "pyfloat option"
  arg_in_stock_only :: "bool option"
  arg_product_id :: "pystr option"
  arg_order_id :: "pystr option"
  arg_email :: "pystr option"
  arg_customer_id :: "pystr option"
  arg_limit :: "int option"
  arg_reason :: "pystr option"

definition no_args :: tool_args where
  "no_args =
     \<lparr>arg_query = None, arg_category = None, arg_max_price = None, arg_min_rating = None,
      arg_in_stock_only = None, arg_product_id = None, arg_order_id = None, arg_email = None,
      arg_customer_id = None, arg_limit = None, arg_reason = None\<rparr>"

definition product_summary :: "Product \<Rightarrow> pyval" where
  "product_summary p = PDict
     [(str ''id'', PStr (p_id p)),
      (str ''name'', PStr (p_name p)),
      (str ''category'', PStr (ProductCategory_value (p_category p))),
      (str ''price'', PFloat (p_price p)),
      (str ''original_price'', opt_float (p_original_price p)),
      (str ''discount_percentage'', opt_float (discount_percentage p)),
      (str ''rating'', PFloat (p_rating p)),
      (str ''review_count'', PInt (p_review_count p)),
      (str ''in_stock'', PBool (p_in_stock p)),
      (str ''brand'', PStr (p_brand p)),
      (str ''tags'', PList (map PStr (p_tags p)))]"

text \<open>The optional filters of the \<open>search_products\<close> tool, applied in the source's order.\<close>

definition filter_category :: "pystr option \<Rightarrow> Product list \<Rightarrow> Product list" where
  "filter_category c results =
     (case c of
        Some cv \<Rightarrow>
          if cv \<noteq> [] then filter (\<lambda>p. ProductCategory_value (p_category p) = cv) results
          else results
      | None \<Rightarrow> results)"

definition filter_max_price :: "pyfloat option \<Rightarrow> Product list \<Rightarrow> Product list" where
  "filter_max_price m results =
     (case m of
        Some mv \<Rightarrow> if mv \<noteq> 0 then filter (\<lambda>p. p_price p \<le> mv) results else results
      | None \<Rightarrow> results)"

definition filter_min_rating :: "pyfloat option \<Rightarrow> Product list \<Rightarrow> Product list" where
  "filter_min_rating m results =
     (case m of
        Some mv \<Rightarrow> if mv \<noteq> 0 then filter (\<lambda>p. mv \<le> p_rating p) results else results
      | None \<Rightarrow> results)"

definition filter_in_stock :: "bool option \<Rightarrow> Product list \<Rightarrow> Product list" where
  "filter_in_stock b results = (if truthy_bool b then filter p_in_stock results else results)"

definition search_results :: "(pystr \<Rightarrow> pystr) \<Rightarrow> store \<Rightarrow> tool_args \<Rightarrow> pystr \<Rightarrow> Product list" where
  "search_results lower st args query =
     filter_in_stock (arg_in_stock_only args)
       (filter_min_rating (arg_min_rating args)
         (filter_max_price (arg_max_price args)
           (filter_category (arg_category args)
             (search_products lower (st_products st) query))))"

definition dispatch_search_products :: "(pystr \<Rightarrow> pystr) \<Rightarrow> store \<Rightarrow> tool_args \<Rightarrow> exn + pyval" where
  "dispatch_search_products lower st args =
     (case arg_query args of
        None \<Rightarrow> Inl (KeyError (str ''query''))
      | Some query \<Rightarrow>
          let results = search_results lower st args query
          in Inr (PDict
               [(str ''products'', PList (map product_summary results)),
                (str ''total'', PInt (int (length results))),
                (str ''query'', PStr query)]))"

definition dispatch_get_product_details :: "store \<Rightarrow> tool_args \<Rightarrow> exn + pyval" where
  "dispatch_get_product_details st args =
     (case arg_product_id args of
        None \<Rightarrow> Inl (KeyError (str ''product_id''))
      | Some pid \<Rightarrow>
          (case get_product_by_id (st_products st) pid of
             None \<Rightarrow> Inr (PDict [(str ''error'', PStr (str ''Product '' @ pid @ str '' not found''))])
           | Some product \<Rightarrow> Inr (Product_model_dump product)))"

definition dispatch_get_products_by_category :: "store \<Rightarrow> tool_args \<Rightarrow> exn + pyval" where
  "dispatch_get_products_by_category st args =
     (case arg_category args of
        None \<Rightarrow> Inl (KeyError (str ''category''))
      | Some c \<Rightarrow>
          (case ProductCategory_of c of
             None \<Rightarrow> Inr (PDict [(str ''error'', PStr (str ''Unknown category: '' @ c))])
           | Some cat \<Rightarrow>
               Inr (PDict
                 [(str ''products'',
                   PList (map product_summary (get_products_by_category (st_products st) cat))),
                  (str ''category'', PStr c)])))"

definition dispatch_check_product_availability :: "store \<Rightarrow> tool_args \<Rightarrow> exn + pyval" where
  "dispatch_check_product_availability st args =
     (case arg_product_id args of
        None \<Rightarrow> Inl (KeyError (str ''product_id''))
      | Some pid \<Rightarrow>
          (case get_product_by_id (st_products st) pid of
             None \<Rightarrow> Inr (PDict [(str ''error'', PStr (str ''Product '' @ pid @ str '' not found''))])
           | Some product \<Rightarrow>
               Inr (PDict
                 [(str ''product_id'', PStr (p_id product)),
                  (str ''name'', PStr (p_name product)),
                  (str ''in_stock'', PBool (p_in_stock product)),
                  (str ''stock_count'', PInt (p_stock product)),
                  (str ''price'', PFloat (p_price product)),
                  (str ''original_price'', opt_float (p_original_price product)),
                  (str ''discount_percentage'', opt_float (discount_percentage product))])))"

definition tracking_event_payload :: "TrackingEvent \<Rightarrow> pyval" where
  "tracking_event_payload e = PDict
     [(str ''timestamp'', PIsoformat (e_timestamp e)),
      (str ''status'', PStr (e_status e)),
      (str ''location'', PStr (e_location e)),
      (str ''description'', PStr (e_description e))]"

definition order_status_payload :: "Order \<Rightarrow> pyval" where
  "order_status_payload order = PDict
     [(str ''order_id'', PStr (o_id order)),
      (str ''status'', PStr (OrderStatus_value (o_status order))),
      (str ''tracking_number'', opt_str (o_tracking_number order)),
      (str ''estimated_delivery'', opt_str (o_estimated_delivery order)),
      (str ''items'',
       PList (map (\<lambda>i. PDict [(str ''name'', PStr (i_product_name i)),
                              (str ''qty'', PInt (i_quantity i))])
                (o_items order))),
      (str ''total'', PFloat (o_total order)),
      (str ''tracking_events'', PList (map tracking_event_payload (o_tracking_events order)))]"

definition dispatch_get_order_status :: "store \<Rightarrow> tool_args \<Rightarrow> exn + pyval" where
  "dispatch_get_order_status st args =
     (case arg_order_id args of
        None \<Rightarrow> Inl (KeyError (str ''order_id''))
      | Some oid \<Rightarrow>
          (case get_order_by_id (st_orders st) oid of
             None \<Rightarrow> Inr (PDict [(str ''error'', PStr (str ''Order '' @ oid @ str '' not found''))])
           | Some order \<Rightarrow> Inr (order_status_payload order)))"

definition customer_orders_payload :: "Order list \<Rightarrow> pyval" where
  "customer_orders_payload orders = PDict
     [(str ''orders'',
       PList (map (\<lambda>ord. PDict
                     [(str ''id'', PStr (o_id ord)),
                      (str ''status'', PStr (OrderStatus_value (o_status ord))),
                      (str ''total'', PFloat (o_total ord)),
                      (str ''item_count'', PInt (int (length (o_items ord)))),
                      (str ''created_at'', PIsoformat (o_created_at ord)),
                      (str ''tracking_number'', opt_str (o_tracking_number ord))])
                orders)),
      (str ''total'', PInt (int (length orders)))]"

definition dispatch_get_customer_orders :: "(pystr \<Rightarrow> pystr) \<Rightarrow> store \<Rightarrow> tool_args \<Rightarrow> exn + pyval" where
  "dispatch_get_customer_orders lower st args =
     (if truthy_str (arg_email args) then
        (case arg_email args of
           Some email \<Rightarrow> Inr (customer_orders_payload (get_orders_by_email lower (st_orders st) email))
         | None \<Rightarrow> Inl (KeyError (str ''email'')))
      else if truthy_str (arg_customer_id args) then
        (case arg_customer_id args of
           Some cid \<Rightarrow> Inr (customer_orders_payload (get_orders_by_customer (st_orders st) cid))
         | None \<Rightarrow> Inl (KeyError (str ''customer_id'')))
      else Inr (PDict [(str ''error'', PStr (str ''Provide either email or customer_id''))]))"

definition customer_profile_payload :: "Customer option \<Rightarrow> pyval" where
  "customer_profile_payload customer =
     (case customer of
        None \<Rightarrow> PDict [(str ''error'', PStr (str ''Customer not found''))]
      | Some c \<Rightarrow> Customer_model_dump c)"

definition dispatch_get_customer_profile :: "(pystr \<Rightarrow> pystr) \<Rightarrow> store \<Rightarrow> tool_args \<Rightarrow> exn + pyval" where
  "dispatch_get_customer_profile lower st args =
     (if truthy_str (arg_email args) then
        (case arg_email args of
           Some email \<Rightarrow>
             Inr (customer_profile_payload (get_customer_by_email lower (st_customers st) email))
         | None \<Rightarrow> Inl (KeyError (str ''email'')))
      else if truthy_str (arg_customer_id args) then
        (case arg_customer_id args of
           Some cid \<Rightarrow> Inr (customer_profile_payload (get_customer_by_id (st_customers st) cid))
         | None \<Rightarrow> Inl (KeyError (str ''customer_id'')))
      else Inr (PDict [(str ''error'', PStr (str ''Provide either email or customer_id''))]))"

text \<open>
  \<open>xs.sort(key=lambda p: p.rating, reverse=True)\<close> and \<open>sorted\<close> with the same arguments:
  a stable sort, highest rating first.
\<close>

definition sort_by_rating :: "Product list \<Rightarrow> Product list" where
  "sort_by_rating ps = sort_key (\<lambda>p. - p_rating p) ps"

definition limit_of :: "tool_args \<Rightarrow> int" where
  "limit_of args = (case arg_limit args of None \<Rightarrow> 4 | Some n \<Rightarrow> n)"

definition recommendations_payload :: "tool_args \<Rightarrow> Product list \<Rightarrow> pyval" where
  "recommendations_payload args ps =
     PDict [(str ''recommendations'', PList (map product_summary (slice_to (limit_of args) ps)))]"

definition related_products :: "Product list \<Rightarrow> Product \<Rightarrow> Product list" where
  "related_products ps base =
     filter (\<lambda>p. p_id p \<noteq> p_id base
                \<and> (p_category p = p_category base
                    \<or> list_ex (\<lambda>t. t \<in> set (p_tags base)) (p_tags p))) ps"

definition recommendations_by_category :: "store \<Rightarrow> tool_args \<Rightarrow> exn + pyval" where
  "recommendations_by_category st args =
     (let top = Inr (recommendations_payload args (sort_by_rating (st_products st)))
      in if truthy_str (arg_category args) then
           (case arg_category args of
              Some c \<Rightarrow>
                (case ProductCategory_of c of
                   Some cat \<Rightarrow>
                     Inr (recommendations_payload args
                            (sort_by_rating (get_products_by_category (st_products st) cat)))
                 | None \<Rightarrow> top)
            | None \<Rightarrow> Inl (KeyError (str ''category'')))
         else top)"

definition dispatch_get_recommendations :: "store \<Rightarrow> tool_args \<Rightarrow> exn + pyval" where
  "dispatch_get_recommendations st args =
     (if truthy_str (arg_product_id args) then
        (case arg_product_id args of
           Some pid \<Rightarrow>
             (case get_product_by_id (st_products st) pid of
                Some base \<Rightarrow>
                  Inr (recommendations_payload args
                         (sort_by_rating (related_products (st_products st) base)))
              | None \<Rightarrow> recommendations_by_category st args)
         | None \<Rightarrow> Inl (KeyError (str ''product_id'')))
      else recommendations_by_category st args)"

definition dispatch_cancel_order :: "store \<Rightarrow> tool_args \<Rightarrow> exn + pyval" where
  "dispatch_cancel_order st args =
     (case arg_order_id args of
        None \<Rightarrow> Inl (KeyError (str ''order_id''))
      | Some oid \<Rightarrow>
          (case get_order_by_id (st_orders st) oid of
             None \<Rightarrow> Inr (PDict [(str ''error'', PStr (str ''Order '' @ oid @ str '' not found''))])
           | Some order \<Rightarrow>
               if o_status order \<notin> {PENDING, CONFIRMED} then
                 Inr (PDict
                   [(str ''error'',
                     PStr (str ''Order cannot be cancelled. Current status: ''
                           @ OrderStatus_value (o_status order))),
                    (str ''cancellable'', PBool False)])
               else
                 Inr (PDict
                   [(str ''success'', PBool True),
                    (str ''order_id'', PStr (o_id order)),
                    (str ''message'',
                     PStr (str ''Order '' @ o_id order
                           @ str '' has been cancelled successfully. Refund will be processed in 3-5 business days.'')),
                    (str ''refund_amount'', PFloat (o_total order))])))"

text \<open>
  \<open>_dispatch_tool\<close>, as a state transformer on the store: the result of the call and the
  store after it. No branch assigns to \<open>PRODUCTS\<close>, \<open>ORDERS\<close>, \<open>CUSTOMERS\<close> or to a field
  of one of their elements (the \<open>cancel_order\<close> branch says so in a comment), and the two
  \<open>sort\<close> calls sort lists built by the branch itself.
\<close>

definition dispatch_tool ::
  "(pystr \<Rightarrow> pystr) \<Rightarrow> store \<Rightarrow> pystr \<Rightarrow> tool_args \<Rightarrow> (exn + pyval) \<times> store" where
  "dispatch_tool lower st name args =
     (if name = str ''search_products'' then (dispatch_search_products lower st args, st)
      else if name = str ''get_product_details'' then (dispatch_get_product_details st args, st)
      else if name = str ''get_products_by_category'' then
        (dispatch_get_products_by_category st args, st)
      else if name = str ''check_product_availability'' then
        (dispatch_check_product_availability st args, st)
      else if name = str ''get_order_status'' then (dispatch_get_order_status st args, st)
      else if name = str ''get_customer_orders'' then
        (dispatch_get_customer_orders lower st args, st)
      else if name = str ''get_customer_profile'' then
        (dispatch_get_customer_profile lower st args, st)
      else if name = str ''get_recommendations'' then (dispatch_get_recommendations st args, st)
      else if name = str ''cancel_order'' then (dispatch_cancel_order st args, st)
      else (Inr (PDict [(str ''error'', PStr (str ''Unknown tool: '' @ name))]), st))"

text \<open>
  \<open>call_tool\<close>: an exception of the dispatcher becomes an error payload. The model returns
  the dictionary that the source serialises with \<open>json.dumps\<close>.
\<close>

definition call_tool :: "(pystr \<Rightarrow> pystr) \<Rightarrow> store \<Rightarrow> pystr \<Rightarrow> tool_args \<Rightarrow> pyval \<times> store" where
  "call_tool lower st name args =
     (case dispatch_tool lower st name args of
        (Inr result, st') \<Rightarrow> (result, st')
      | (Inl e, st') \<Rightarrow> (PDict [(str ''error'', PStr (exn_str e))], st'))"

section \<open>The agents' local fallbacks\<close>

text \<open>
  \<open>_call_mcp_tool\<close> posts the call to the MCP server and, on any exception, calls
  \<open>_direct_tool_call\<close> with the same name and arguments. Both fallbacks return
  \<open>json.dumps\<close> of a dictionary; the model returns the dictionary, with the store after
  the call.
\<close>

subsection \<open>agents/product_agent/agent.py\<close>

definition product_direct_search_products :: "(pystr \<Rightarrow> pystr) \<Rightarrow> store \<Rightarrow> tool_args \<Rightarrow> exn + pyval" where
  "product_direct_search_products lower st args =
     (let results =
            filter_in_stock (arg_in_stock_only args)
              (filter_max_price (arg_max_price args)
                (filter_category (arg_category args)
                  (search_products lower (st_products st)
                     (case arg_query args of None \<Rightarrow> [] | Some q \<Rightarrow> q))))
      in Inr (PDict
           [(str ''products'',
             PList (map (\<lambda>p. PDict
                           [(str ''id'', PStr (p_id p)),
                            (str ''name'', PStr (p_name p)),
                            (str ''price'', PFloat (p_price p)),
                            (str ''rating'', PFloat (p_rating p)),
                            (str ''in_stock'', PBool (p_in_stock p)),
                            (str ''brand'', PStr (p_brand p)),
                            (str ''category'', PStr (ProductCategory_value (p_category p)))])
                      results)),
            (str ''total'', PInt (int (length results)))]))"

definition product_direct_get_product_details :: "store \<Rightarrow> tool_args \<Rightarrow> exn + pyval" where
  "product_direct_get_product_details st args =
     (case arg_product_id args of
        None \<Rightarrow> Inl (KeyError (str ''product_id''))
      | Some pid \<Rightarrow>
          (case get_product_by_id (st_products st) pid of
             Some p \<Rightarrow> Inr (Product_model_dump p)
           | None \<Rightarrow> Inr (PDict [(str ''error'', PStr (str ''not found''))])))"

definition product_direct_get_recommendations :: "store \<Rightarrow> exn + pyval" where
  "product_direct_get_recommendations st =
     (let top = take 4 (sort_by_rating (st_products st))
      in Inr (PDict
           [(str ''recommendations'',
             PList (map (\<lambda>p. PDict
                           [(str ''id'', PStr (p_id p)),
                            (str ''name'', PStr (p_name p)),
                            (str ''price'', PFloat (p_price p)),
                            (str ''rating'', PFloat (p_rating p))])
                      top))]))"

definition product_direct_tool_call ::
  "(pystr \<Rightarrow> pystr) \<Rightarrow> store \<Rightarrow> pystr \<Rightarrow> tool_args \<Rightarrow> (exn + pyval) \<times> store" where
  "product_direct_tool_call lower st tool_name arguments =
     (if tool_name = str ''search_products'' then
        (product_direct_search_products lower st arguments, st)
      else if tool_name = str ''get_product_details'' then
        (product_direct_get_product_details st arguments, st)
      else if tool_name = str ''get_recommendations'' then
        (product_direct_get_recommendations st, st)
      else
        (Inr (PDict [(str ''error'',
                      PStr (str ''Tool '' @ tool_name @ str '' not available in fallback''))]),
         st))"

text \<open>The names that the product agent's tools pass to \<open>_call_mcp_tool\<close>.\<close>

definition product_agent_tool_names :: "pystr list" where
  "product_agent_tool_names =
     [str ''search_products'', str ''get_product_details'', str ''check_product_availability'',
      str ''get_recommendations'']"

subsection \<open>agents/order_agent/agent.py\<close>

definition order_direct_get_order_status :: "store \<Rightarrow> tool_args \<Rightarrow> exn + pyval" where
  "order_direct_get_order_status st args =
     (case arg_order_id args of
        None \<Rightarrow> Inl (KeyError (str ''order_id''))
      | Some oid \<Rightarrow>
          (case get_order_by_id (st_orders st) oid of
             None \<Rightarrow>
               Inr (PDict [(str ''error'',
                            PStr (str ''Sipari'' @ [351] @ str '' '' @ oid
                                  @ str '' bulunamad'' @ [305]))])
           | Some order \<Rightarrow> Inr (order_status_payload order)))"

definition order_direct_customer_orders_payload :: "Order list \<Rightarrow> pyval" where
  "order_direct_customer_orders_payload orders = PDict
     [(str ''orders'',
       PList (map (\<lambda>ord. PDict
                     [(str ''id'', PStr (o_id ord)),
                      (str ''status'', PStr (OrderStatus_value (o_status ord))),
                      (str ''total'', PFloat (o_total ord)),
                      (str ''item_count'', PInt (int (length (o_items ord)))),
                      (str ''created_at'', PIsoformat (o_created_at ord)),
                      (str ''tracking_number'', opt_str (o_tracking_number ord)),
                      (str ''estimated_delivery'', opt_str (o_estimated_delivery ord))])
                orders)),
      (str ''total'', PInt (int (length orders)))]"

definition order_direct_get_customer_orders :: "(pystr \<Rightarrow> pystr) \<Rightarrow> store \<Rightarrow> tool_args \<Rightarrow> exn + pyval" where
  "order_direct_get_customer_orders lower st args =
     (if truthy_str (arg_email args) then
        (case arg_email args of
           Some email \<Rightarrow>
             Inr (order_direct_customer_orders_payload
                    (get_orders_by_email lower (st_orders st) email))
         | None \<Rightarrow> Inl (KeyError (str ''email'')))
      else if truthy_str (arg_customer_id args) then
        (case arg_customer_id args of
           Some cid \<Rightarrow>
             Inr (order_direct_customer_orders_payload
                    (get_orders_by_customer (st_orders st) cid))
         | None \<Rightarrow> Inl (KeyError (str ''customer_id'')))
      else Inr (PDict [(str ''error'',
                        PStr (str ''Email veya m'' @ [252, 351] @ str ''teri ID gerekli''))]))"

definition order_direct_cancel_order :: "store \<Rightarrow> tool_args \<Rightarrow> exn + pyval" where
  "order_direct_cancel_order st args =
     (case arg_order_id args of
        None \<Rightarrow> Inl (KeyError (str ''order_id''))
      | Some oid \<Rightarrow>
          (case get_order_by_id (st_orders st) oid of
             None \<Rightarrow>
               Inr (PDict [(str ''error'',
                            PStr (str ''Sipari'' @ [351] @ str '' bulunamad'' @ [305]))])
           | Some order \<Rightarrow>
               if o_status order \<notin> {PENDING, CONFIRMED} then
                 Inr (PDict
                   [(str ''error'',
                     PStr (str ''Sipari'' @ [351] @ str '' iptal edilemiyor. Mevcut durum: ''
                           @ OrderStatus_value (o_status order))),
                    (str ''cancellable'', PBool False)])
               else
                 Inr (PDict
                   [(str ''success'', PBool True),
                    (str ''order_id'', PStr (o_id order)),
                    (str ''message'',
                     PStr (str ''Sipari'' @ [351] @ str '' '' @ o_id order
                           @ str '' ba'' @ [351] @ str ''ar'' @ [305] @ str ''yla iptal edildi. ''
                           @ [304] @ str ''ade 3-5 i'' @ [351] @ str '' g'' @ [252] @ str ''n'' @ [252]
                           @ str ''nde i'' @ [351] @ str ''leme al'' @ [305] @ str ''nacak.'')),
                    (str ''refund_amount'', PFloat (o_total order))])))"

definition order_direct_get_customer_profile :: "(pystr \<Rightarrow> pystr) \<Rightarrow> store \<Rightarrow> tool_args \<Rightarrow> exn + pyval" where
  "order_direct_get_customer_profile lower st args =
     (case get_customer_by_email lower (st_customers st)
             (case arg_email args of None \<Rightarrow> [] | Some e \<Rightarrow> e) of
        None \<Rightarrow>
          Inr (PDict [(str ''error'', PStr (str ''M'' @ [252, 351] @ str ''teri bulunamad'' @ [305]))])
      | Some customer \<Rightarrow> Inr (Customer_model_dump customer))"

definition order_direct_tool_call ::
  "(pystr \<Rightarrow> pystr) \<Rightarrow> store \<Rightarrow> pystr \<Rightarrow> tool_args \<Rightarrow> (exn + pyval) \<times> store" where
  "order_direct_tool_call lower st tool_name arguments =
     (if tool_name = str ''get_order_status'' then (order_direct_get_order_status st arguments, st)
      else if tool_name = str ''get_customer_orders'' then
        (order_direct_get_customer_orders lower st arguments, st)
      else if tool_name = str ''cancel_order'' then (order_direct_cancel_order st arguments, st)
      else if tool_name = str ''get_customer_profile'' then
        (order_direct_get_customer_profile lower st arguments, st)
      else (Inr (PDict [(str ''error'', PStr (str ''Tool not available: '' @ tool_name))]), st))"

section \<open>The web-search tools\<close>

text \<open>
  \<open>TavilyClient.search\<close> is the external collaborator: a request goes in, a response
  dictionary comes out or an exception is raised (an import or construction error of the
  client included). A tool returns its payload and the list of requests that it sent.
\<close>

record search_request =
  sr_query :: pystr
  sr_search_depth :: pystr
  sr_max_results :: int

text \<open>One entry of the response's \<open>results\<close>; \<open>None\<close> is an absent key.\<close>

record search_hit =
  h_title :: "pystr option"
  h_url :: "pystr option"
  h_content :: "pystr option"
  h_score :: "pyfloat option"

record search_response =
  resp_answer :: "pystr option"
  resp_results :: "search_hit list option"

type_synonym tavily = "search_request \<Rightarrow> exn + search_response"

text \<open>\<open>r[k]\<close> on a hit, and a list comprehension that stops at the first exception.\<close>

definition hit_key :: "string \<Rightarrow> pystr option \<Rightarrow> exn + pystr" where
  "hit_key k v = (case v of None \<Rightarrow> Inl (KeyError (str k)) | Some s \<Rightarrow> Inr s)"

fun map_exn :: "('a \<Rightarrow> exn + 'b) \<Rightarrow> 'a list \<Rightarrow> exn + 'b list" where
  "map_exn f [] = Inr []"
| "map_exn f (x # xs) =
     (case f x of
        Inl e \<Rightarrow> Inl e
      | Inr y \<Rightarrow> (case map_exn f xs of Inl e \<Rightarrow> Inl e | Inr ys \<Rightarrow> Inr (y # ys)))"

text \<open>
  A hit as a dictionary with the keys \<open>kt\<close>, \<open>url\<close>, \<open>kc\<close>: title, url and the first \<open>n\<close>
  characters of the content.
\<close>

definition hit_entry :: "string \<Rightarrow> string \<Rightarrow> nat \<Rightarrow> search_hit \<Rightarrow> exn + (pystr \<times> pyval) list" where
  "hit_entry kt kc n r =
     (case hit_key ''title'' (h_title r) of
        Inl e \<Rightarrow> Inl e
      | Inr t \<Rightarrow>
          (case hit_key ''url'' (h_url r) of
             Inl e \<Rightarrow> Inl e
           | Inr u \<Rightarrow>
               (case hit_key ''content'' (h_content r) of
                  Inl e \<Rightarrow> Inl e
                | Inr c \<Rightarrow>
                    Inr [(str kt, PStr t), (str ''url'', PStr u), (str kc, PStr (take n c))])))"

definition answer_of :: "search_response \<Rightarrow> pyval" where
  "answer_of resp = PStr (case resp_answer resp of None \<Rightarrow> [] | Some a \<Rightarrow> a)"

definition results_of :: "search_response \<Rightarrow> search_hit list" where
  "results_of resp = (case resp_results resp of None \<Rightarrow> [] | Some rs \<Rightarrow> rs)"

record settings =
  tavily_api_key :: pystr

subsection \<open>agents/search_agent/agent.py\<close>

definition web_search ::
  "settings \<Rightarrow> tavily \<Rightarrow> pystr \<Rightarrow> pystr \<Rightarrow> pyval \<times> search_request list" where
  "web_search cfg search query search_depth =
     (if tavily_api_key cfg = [] then
        (PDict [(str ''message'',
                 PStr (str ''TAVILY_API_KEY yap'' @ [305] @ str ''land'' @ [305] @ str ''r'' @ [305]
                       @ str ''lmam'' @ [305, 351] @ str ''. Web aramas'' @ [305] @ str '' devre d''
                       @ [305, 351, 305] @ str ''.'')),
                (str ''results'', PList [])], [])
      else
        (let req = \<lparr>sr_query = query, sr_search_depth = search_depth, sr_max_results = 5\<rparr>;
             failed = (\<lambda>e. PDict [(str ''error'', PStr (exn_str e)), (str ''results'', PList [])])
         in case search req of
              Inl e \<Rightarrow> (failed e, [req])
            | Inr results \<Rightarrow>
                (case map_exn
                        (\<lambda>r. case hit_entry ''title'' ''content'' 600 r of
                               Inl e \<Rightarrow> Inl e
                             | Inr kv \<Rightarrow>
                                 Inr (PDict (kv @ [(str ''score'',
                                        case h_score r of None \<Rightarrow> PInt 0 | Some s \<Rightarrow> PFloat s)])))
                        (take 5 (results_of results)) of
                   Inl e \<Rightarrow> (failed e, [req])
                 | Inr hits \<Rightarrow>
                     (PDict [(str ''answer'', answer_of results), (str ''results'', PList hits)],
                      [req]))))"

definition search_disabled :: pyval where
  "search_disabled =
     PDict [(str ''message'',
             PStr (str ''Web aramas'' @ [305] @ str '' devre d'' @ [305, 351, 305] @ str ''.'')),
            (str ''results'', PList [])]"

definition compare_prices :: "settings \<Rightarrow> tavily \<Rightarrow> pystr \<Rightarrow> pyval \<times> search_request list" where
  "compare_prices cfg search product_name =
     (if tavily_api_key cfg = [] then (search_disabled, [])
      else
        (let req = \<lparr>sr_query = product_name @ str '' fiyat kar'' @ [351, 305] @ str ''la'' @ [351]
                                 @ str ''t'' @ [305] @ str ''rma Trendyol Hepsiburada Amazon 2025'',
                    sr_search_depth = str ''basic'', sr_max_results = 6\<rparr>;
             failed = (\<lambda>e. PDict [(str ''error'', PStr (exn_str e))])
         in case search req of
              Inl e \<Rightarrow> (failed e, [req])
            | Inr results \<Rightarrow>
                (case map_exn (\<lambda>r. map_sum id PDict (hit_entry ''source'' ''info'' 400 r))
                        (take 5 (results_of results)) of
                   Inl e \<Rightarrow> (failed e, [req])
                 | Inr hits \<Rightarrow>
                     (PDict [(str ''product'', PStr product_name),
                             (str ''answer'', answer_of results),
                             (str ''price_sources'', PList hits)],
                      [req]))))"

definition get_product_reviews_web :: "settings \<Rightarrow> tavily \<Rightarrow> pystr \<Rightarrow> pyval \<times> search_request list" where
  "get_product_reviews_web cfg search product_name =
     (if tavily_api_key cfg = [] then (search_disabled, [])
      else
        (let req = \<lparr>sr_query = product_name @ str '' kullan'' @ [305] @ str ''c'' @ [305]
                                 @ str '' yorumlar'' @ [305] @ str '' inceleme review 2024 2025'',
                    sr_search_depth = str ''advanced'', sr_max_results = 5\<rparr>;
             failed = (\<lambda>e. PDict [(str ''error'', PStr (exn_str e))])
         in case search req of
              Inl e \<Rightarrow> (failed e, [req])
            | Inr results \<Rightarrow>
                (case map_exn (\<lambda>r. map_sum id PDict (hit_entry ''source'' ''excerpt'' 500 r))
                        (take 4 (results_of results)) of
                   Inl e \<Rightarrow> (failed e, [req])
                 | Inr hits \<Rightarrow>
                     (PDict [(str ''product'', PStr product_name),
                             (str ''summary'', answer_of results),
                             (str ''reviews'', PList hits)],
                      [req]))))"

definition get_trending_products :: "settings \<Rightarrow> tavily \<Rightarrow> pystr \<Rightarrow> pyval \<times> search_request list" where
  "get_trending_products cfg search category =
     (if tavily_api_key cfg = [] then (search_disabled, [])
      else
        (let req = \<lparr>sr_query = str ''2025 en iyi '' @ category @ str '' '' @ [252] @ str ''r'' @ [252]
                                 @ str ''nleri trend '' @ [231] @ str ''ok satan'',
                    sr_search_depth = str ''basic'', sr_max_results = 5\<rparr>;
             failed = (\<lambda>e. PDict [(str ''error'', PStr (exn_str e))])
         in case search req of
              Inl e \<Rightarrow> (failed e, [req])
            | Inr results \<Rightarrow>
                (case map_exn (\<lambda>r. map_sum id PDict (hit_entry ''title'' ''content'' 400 r))
                        (take 4 (results_of results)) of
                   Inl e \<Rightarrow> (failed e, [req])
                 | Inr hits \<Rightarrow>
                     (PDict [(str ''category'', PStr category),
                             (str ''trending_summary'', answer_of results),
                             (str ''sources'', PList hits)],
                      [req]))))"

subsection \<open>agents/product_agent/agent.py\<close>

definition web_search_products :: "settings \<Rightarrow> tavily \<Rightarrow> pystr \<Rightarrow> pyval \<times> search_request list" where
  "web_search_products cfg search query =
     (if tavily_api_key cfg = [] then
        (PDict [(str ''message'', PStr (str ''Web search not configured (no TAVILY_API_KEY)'')),
                (str ''results'', PList [])], [])
      else
        (let req = \<lparr>sr_query = query, sr_search_depth = str ''basic'', sr_max_results = 5\<rparr>;
             failed = (\<lambda>e. PDict [(str ''error'', PStr (exn_str e)), (str ''results'', PList [])])
         in case search req of
              Inl e \<Rightarrow> (failed e, [req])
            | Inr results \<Rightarrow>
                (case map_exn (\<lambda>r. map_sum id PDict (hit_entry ''title'' ''content'' 500 r))
                        (take 3 (results_of results)) of
                   Inl e \<Rightarrow> (failed e, [req])
                 | Inr hits \<Rightarrow>
                     (PDict [(str ''answer'', answer_of results), (str ''results'', PList hits)],
                      [req]))))"

subsection \<open>agents/order_agent/agent.py\<close>

definition web_search_shipping :: "settings \<Rightarrow> tavily \<Rightarrow> pystr \<Rightarrow> pyval \<times> search_request list" where
  "web_search_shipping cfg search query =
     (if tavily_api_key cfg = [] then
        (PDict [(str ''message'',
                 PStr (str ''Web aramas'' @ [305] @ str '' yap'' @ [305] @ str ''land'' @ [305]
                       @ str ''r'' @ [305] @ str ''lmam'' @ [305, 351] @ str '' (TAVILY_API_KEY eksik)'')),
                (str ''results'', PList [])], [])
      else
        (let req = \<lparr>sr_query = query, sr_search_depth = str ''basic'', sr_max_results = 3\<rparr>;
             failed = (\<lambda>e. PDict [(str ''error'', PStr (exn_str e))])
         in case search req of
              Inl e \<Rightarrow> (failed e, [req])
            | Inr results \<Rightarrow>
                (case map_exn (\<lambda>r. map_sum id PDict (hit_entry ''title'' ''content'' 400 r))
                        (take 3 (results_of results)) of
                   Inl e \<Rightarrow> (failed e, [req])
                 | Inr hits \<Rightarrow>
                     (PDict [(str ''answer'', answer_of results), (str ''results'', PList hits)],
                      [req]))))"

section \<open>The delegation client (agents/orchestrator/agent.py)\<close>

text \<open>
  The response of \<open>A2AClient.send_message\<close>, as far as \<open>_delegate_to_agent\<close> probes it:
  a part has a \<open>text\<close> or not; a task has optional artifacts (each a list of parts) and
  an optional status message (a list of parts); a message result and an error response
  have neither \<open>artifacts\<close> nor \<open>status\<close>.
\<close>

datatype part = TextPart pystr | FilePart | DataPart

record a2a_task =
  at_artifacts :: "part list list option"
  at_status_message :: "part list option"

datatype send_result = TaskResult a2a_task | MessageResult "part list"

datatype send_response = SuccessResponse send_result | ErrorResponse pystr

text \<open>The inner loop: \<open>result_text += part.root.text\<close> for every part that has a text.\<close>

fun parts_text :: "part list \<Rightarrow> pystr" where
  "parts_text [] = []"
| "parts_text (TextPart t # ps) = t @ parts_text ps"
| "parts_text (FilePart # ps) = parts_text ps"
| "parts_text (DataPart # ps) = parts_text ps"

fun artifacts_text :: "part list list \<Rightarrow> pystr" where
  "artifacts_text [] = []"
| "artifacts_text (a # as) = parts_text a @ artifacts_text as"

definition extract_text :: "send_response \<Rightarrow> pystr" where
  "extract_text response =
     (case response of
        ErrorResponse _ \<Rightarrow> []
      | SuccessResponse (MessageResult _) \<Rightarrow> []
      | SuccessResponse (TaskResult result) \<Rightarrow>
          (case at_artifacts result of
             Some (a # as) \<Rightarrow> artifacts_text (a # as)
           | _ \<Rightarrow>
               (case at_status_message result of
                  Some msg \<Rightarrow> parts_text msg
                | None \<Rightarrow> [])))"

text \<open>
  \<open>send_message\<close> is the transport: it returns a response or raises. \<open>exn\<close> stands for
  the subclasses of \<open>Exception\<close>, which is what the handler catches.
\<close>

definition delegate_to_agent ::
  "(pystr \<Rightarrow> pystr \<Rightarrow> exn + send_response) \<Rightarrow> pystr \<Rightarrow> pystr \<Rightarrow> pystr \<Rightarrow> pystr" where
  "delegate_to_agent send_message agent_url query agent_name =
     (case send_message agent_url query of
        Inr response \<Rightarrow>
          (let result_text = extract_text response
           in if result_text \<noteq> [] then result_text
              else agent_name @ str '' yan'' @ [305] @ str ''t vermedi.'')
      | Inl e \<Rightarrow>
          (let short_err = take 100 (exn_str e)
           in agent_name @ str '' '' @ [351] @ str ''u anda ula'' @ [351, 305] @ str ''lam'' @ [305]
              @ str ''yor ('' @ short_err @ str ''). L'' @ [252]
              @ str ''tfen daha sonra tekrar deneyin.''))"

section \<open>The agent executors (agents/*/executor.py)\<close>

datatype TaskState = submitted | working | completed | failed | canceled

record task =
  t_id :: pystr
  t_context_id :: pystr

text \<open>
  What an executor puts on the event queue. \<open>TaskUpdater\<close> (a2a SDK) enqueues one event
  per call: \<open>submit\<close>, \<open>start_work\<close>, \<open>update_status\<close>, \<open>complete\<close> and \<open>failed\<close> a status
  update (the last two marked final), \<open>add_artifact\<close> an artifact update.
\<close>

datatype event =
    TaskEvent task
  | TaskStatusUpdateEvent TaskState "pystr option" bool
  | TaskArtifactUpdateEvent pystr pystr "pystr list"
















text \<open>The four executors are one method with different texts.\<close>

record executor_texts =
  x_progress :: pystr
  x_empty_response :: pystr
  x_artifact_prefix :: pystr
  x_artifact_name :: pystr
  x_error_prefix :: pystr
  x_error_suffix :: pystr


definition OrchestratorExecutor :: executor_texts where
  "OrchestratorExecutor =
     \<lparr>x_progress = [304] @ str ''ste'' @ [287] @ str ''inizi analiz ediyorum ve uygun uzman ajana y''
                   @ [246] @ str ''nlendiriyorum...'',
      x_empty_response = [220] @ str ''zg'' @ [252] @ str ''n'' @ [252] @ str ''m, iste'' @ [287]
                         @ str ''inizi i'' @ [351] @ str ''leyemedim. L'' @ [252]
                         @ str ''tfen tekrar deneyin.'',
      x_artifact_prefix = str ''orchestrator-response-'',
      x_artifact_name = str ''Shopping Assistant Response'',
      x_error_prefix = str ''Sistem hatas'' @ [305] @ str '': '',
      x_error_suffix = str ''. L'' @ [252] @ str ''tfen tekrar deneyin.''\<rparr>"

definition ProductAgentExecutor :: executor_texts where
  "ProductAgentExecutor =
     \<lparr>x_progress = [220] @ str ''r'' @ [252] @ str ''n katalo'' @ [287] @ str ''unu ara'' @ [351]
                   @ str ''t'' @ [305] @ str ''r'' @ [305] @ str ''yorum...'',
      x_empty_response = [220] @ str ''zg'' @ [252] @ str ''n'' @ [252] @ str ''m, bu konuda size yard''
                         @ [305] @ str ''mc'' @ [305] @ str '' olamad'' @ [305] @ str ''m.'',
      x_artifact_prefix = str ''product-response-'',
      x_artifact_name = str ''Product Agent Response'',
      x_error_prefix = str ''Bir hata olu'' @ [351] @ str ''tu: '',
      x_error_suffix = []\<rparr>"

definition SearchAgentExecutor :: executor_texts where
  "SearchAgentExecutor =
     \<lparr>x_progress = str ''Web'' @ [39] @ str ''de ara'' @ [351] @ str ''t'' @ [305] @ str ''r'' @ [305]
                   @ str ''yorum...'',
      x_empty_response = str ''Web aramas'' @ [305] @ str '' tamamland'' @ [305] @ str '' ancak sonu''
                         @ [231] @ str '' bulunamad'' @ [305] @ str ''.'',
      x_artifact_prefix = str ''search-response-'',
      x_artifact_name = str ''Search Agent Response'',
      x_error_prefix = str ''Arama hatas'' @ [305] @ str '': '',
      x_error_suffix = []\<rparr>"



text \<open>
  \<open>execute\<close> returns the exception it raises, if any, and what it has done, in order:
  the events it has enqueued and the run of the agent graph (\<open>self.agent.astream\<close>)
  with the query and the context id.
\<close>

datatype action = Enqueue event | AgentRun pystr pystr


fun events_of :: "action list \<Rightarrow> event list" where
  "events_of [] = []"
| "events_of (Enqueue e # as) = e # events_of as"
| "events_of (AgentRun _ _ # as) = events_of as"

text \<open>The states of the status updates, in order; a repeated state is no transition.\<close>

fun event_states :: "event list \<Rightarrow> TaskState list" where
  "event_states [] = []"
| "event_states (TaskStatusUpdateEvent s _ _ # es) = s # event_states es"
| "event_states (TaskEvent _ # es) = event_states es"
| "event_states (TaskArtifactUpdateEvent _ _ _ # es) = event_states es"


section \<open>The specification's notions\<close>

text \<open>
  The matching rule in the specification's words: the lowercased query is a substring of
  the product's lowercased name, description or brand, or of some lowercased tag.
\<close>

definition spec_matches :: "(pystr \<Rightarrow> pystr) \<Rightarrow> pystr \<Rightarrow> Product \<Rightarrow> bool" where
  "spec_matches lower query p \<longleftrightarrow>
     sublist (lower query) (lower (p_name p))
     \<or> sublist (lower query) (lower (p_description p))
     \<or> sublist (lower query) (lower (p_brand p))
     \<or> (\<exists>tag \<in> set (p_tags p). sublist (lower query) (lower tag))"

text \<open>\<open>payload[k]\<close> on a result dictionary.\<close>

fun dict_get :: "pyval \<Rightarrow> pystr \<Rightarrow> pyval option" where
  "dict_get (PDict kvs) k = map_of kvs k"
| "dict_get _ k = None"

text \<open>
  An explicit not-found indication: a dictionary whose only key is \<open>error\<close>, with a
  message that says \<open>not found\<close>.
\<close>

fun not_found_payload :: "pyval \<Rightarrow> bool" where
  "not_found_payload (PDict [(k, PStr m)]) = (k = str ''error'' \<and> sublist (str ''not found'') m)"
| "not_found_payload _ = False"



text \<open>
  Two clocks for concrete runs: one that stands still, and one that is set back by ten
  days after its third reading.
\<close>

definition clock_standing :: "nat \<Rightarrow> int" where
  "clock_standing k = 0"


text \<open>
  \<open>str.lower\<close> on ASCII text, for evaluating the functions at concrete inputs: the
  letters \<open>A\<close> to \<open>Z\<close> go to \<open>a\<close> to \<open>z\<close>, every other code point stays.
\<close>

definition ascii_lower :: "pystr \<Rightarrow> pystr" where
  "ascii_lower s = map (\<lambda>c. if 65 \<le> c \<and> c \<le> 90 then c + 32 else c) s"

section \<open>Basic facts\<close>

lemma str_eq_iff [simp]: "str a = str b \<longleftrightarrow> a = b"
  by (simp add: str_def inj_on_def)

lemma str_eq_Nil [simp]: "str s = [] \<longleftrightarrow> s = []" "[] = str s \<longleftrightarrow> s = []"
  by (auto simp: str_def)

lemma py_in_sublist: "py_in xs ys = sublist xs ys"
  by (induction ys) (simp_all add: sublist_Cons_right)

lemma ascii_lower_Nil: "ascii_lower [] = []"
  by (simp add: ascii_lower_def)

lemma length_PRODUCTS: "length PRODUCTS = 10"
  by (simp add: PRODUCTS_def)

section \<open>Catalogue search\<close>

lemma product_matches_spec: "product_matches lower (lower q) = spec_matches lower q"
  by (rule ext) (auto simp: product_matches_def spec_matches_def py_in_sublist list_ex_iff)

lemma search_loop_filter:
  "search_loop lower ql ps acc = acc @ filter (product_matches lower ql) ps"
  by (induction ps arbitrary: acc) simp_all

lemma search_products_filter:
  "search_products lower ps q = filter (spec_matches lower q) ps"
  by (simp add: search_products_def search_loop_filter product_matches_spec)

lemma search_results_subset:
  "set (search_results lower st args q) \<subseteq> set (search_products lower (st_products st) q)"
  by (auto simp: search_results_def filter_in_stock_def filter_min_rating_def
      filter_max_price_def filter_category_def split: option.splits if_splits)

lemma search_results_no_filters:
  "arg_category args = None \<Longrightarrow> arg_max_price args = None \<Longrightarrow> arg_min_rating args = None
   \<Longrightarrow> arg_in_stock_only args = None
   \<Longrightarrow> search_results lower st args q = search_products lower (st_products st) q"
  by (simp add: search_results_def filter_in_stock_def filter_min_rating_def
      filter_max_price_def filter_category_def)

lemma no_product_matches_zzz:
  "\<not> (\<exists>p \<in> set (st_products (mock_data (\<lambda>k. 0))). spec_matches ascii_lower (str ''zzz'') p)"
  apply (simp add: mock_data_def)
  apply code_simp
  done

text \<open>
  C6. \<open>search_products\<close> returns, in catalogue order, exactly the products that the
  specification's rule matches: the lowercased query is a substring of the lowercased
  name, description or brand, or of some lowercased tag. So for a query that matches no
  product of the store, the \<open>search_products\<close> tool returns \<open>products = []\<close> and
  \<open>total = 0\<close>, whatever the optional filters are, from the MCP dispatcher and from the
  product agent's fallback alike.
\<close>

theorem C6_search_products_no_match:
  "search_products lower ps q = filter (spec_matches lower q) ps
   \<and> (arg_query args = Some query
      \<and> \<not> (\<exists>p \<in> set (st_products st). spec_matches lower query p)
      \<longrightarrow> dispatch_tool lower st (str ''search_products'') args
            = (Inr (PDict [(str ''products'', PList []), (str ''total'', PInt 0),
                           (str ''query'', PStr query)]), st)
          \<and> product_direct_tool_call lower st (str ''search_products'') args
            = (Inr (PDict [(str ''products'', PList []), (str ''total'', PInt 0)]), st))"
proof (intro conjI impI)
  show "search_products lower ps q = filter (spec_matches lower q) ps"
    by (rule search_products_filter)
next
  assume a: "arg_query args = Some query
      \<and> \<not> (\<exists>p \<in> set (st_products st). spec_matches lower query p)"
  then have e: "search_products lower (st_products st) query = []"
    by (simp add: search_products_filter filter_empty_conv)
  then have "search_results lower st args query = []"
    using search_results_subset[of lower st args query] by simp
  with a show "dispatch_tool lower st (str ''search_products'') args
            = (Inr (PDict [(str ''products'', PList []), (str ''total'', PInt 0),
                           (str ''query'', PStr query)]), st)"
    by (simp add: dispatch_tool_def dispatch_search_products_def)
  from a e show "product_direct_tool_call lower st (str ''search_products'') args
            = (Inr (PDict [(str ''products'', PList []), (str ''total'', PInt 0)]), st)"
    by (simp add: product_direct_tool_call_def product_direct_search_products_def
        filter_in_stock_def filter_max_price_def filter_category_def split: option.splits)
qed

theorem C6_search_products_no_match_witness:
  "dispatch_tool ascii_lower (mock_data (\<lambda>k. 0)) (str ''search_products'')
     (no_args\<lparr>arg_query := Some (str ''zzz'')\<rparr>)
   = (Inr (PDict [(str ''products'', PList []), (str ''total'', PInt 0),
                  (str ''query'', PStr (str ''zzz''))]), mock_data (\<lambda>k. 0))"
  using C6_search_products_no_match
          [of ascii_lower "[]" "[]" "no_args\<lparr>arg_query := Some (str ''zzz'')\<rparr>" "str ''zzz''"
              "mock_data (\<lambda>k. 0)"]
        no_product_matches_zzz
  by simp

section \<open>Facts about the mock data\<close>

lemma product_ids:
  "p_id prod_001 = str ''prod-001''" "p_id prod_002 = str ''prod-002''"
  "p_id prod_003 = str ''prod-003''" "p_id prod_004 = str ''prod-004''"
  "p_id prod_005 = str ''prod-005''" "p_id prod_006 = str ''prod-006''"
  "p_id prod_007 = str ''prod-007''" "p_id prod_008 = str ''prod-008''"
  "p_id prod_009 = str ''prod-009''" "p_id prod_010 = str ''prod-010''"
  by (simp_all add: prod_001_def prod_002_def prod_003_def prod_004_def prod_005_def
      prod_006_def prod_007_def prod_008_def prod_009_def prod_010_def)

lemma order_ids:
  "o_id (ord_001 u) = str ''ord-001''" "o_id (ord_002 u) = str ''ord-002''"
  "o_id (ord_003 u) = str ''ord-003''" "o_id (ord_004 u) = str ''ord-004''"
  by (simp_all add: ord_001_def ord_002_def ord_003_def ord_004_def)

lemma customer_ids:
  "c_id cust_001 = str ''cust-001''" "c_id cust_002 = str ''cust-002''"
  "c_id cust_003 = str ''cust-003''"
  by (simp_all add: cust_001_def cust_002_def cust_003_def)

lemma get_product_by_id_prod_001:
  "get_product_by_id (st_products (mock_data u)) (str ''prod-001'') = Some prod_001"
  by (simp add: get_product_by_id_def mock_data_def PRODUCTS_def product_ids)

lemma get_product_by_id_missing:
  "get_product_by_id (st_products (mock_data u)) (str ''prod-999'') = None"
  by (simp add: get_product_by_id_def mock_data_def PRODUCTS_def product_ids)

lemma get_order_by_id_ord_001:
  "get_order_by_id (st_orders (mock_data u)) (str ''ord-001'') = Some (ord_001 u)"
  by (simp add: get_order_by_id_def mock_data_def ORDERS_def order_ids)

lemma get_order_by_id_missing:
  "get_order_by_id (st_orders (mock_data u)) (str ''ord-999'') = None"
  by (simp add: get_order_by_id_def mock_data_def ORDERS_def order_ids)

lemma get_customer_by_id_missing:
  "get_customer_by_id (st_customers (mock_data u)) (str ''cust-999'') = None"
  by (simp add: get_customer_by_id_def mock_data_def CUSTOMERS_def customer_ids)

lemma get_customer_by_email_missing:
  "get_customer_by_email ascii_lower (st_customers (mock_data u)) (str ''nobody@example.com'') = None"
  apply (simp add: get_customer_by_email_def mock_data_def CUSTOMERS_def)
  apply code_simp
  done

lemma prod_001_availability:
  "p_name prod_001 = str ''Sony WH-1000XM5 Kablosuz Kulakl'' @ [305] @ str ''k''"
  "p_in_stock prod_001 = True" "p_stock prod_001 = 45" "p_price prod_001 = 899.99"
  "p_original_price prod_001 = Some 1099.99"
  by (simp_all add: prod_001_def)

lemma floor_discount_prod_001: "\<lfloor>20000000 / 109999 :: rat\<rfloor> = 181"
  by (simp add: floor_eq_iff)

lemma discount_percentage_prod_001: "discount_percentage prod_001 = Some 18.2"
  by (simp add: discount_percentage_def prod_001_availability round1_def Let_def
      floor_discount_prod_001)

lemma ord_001_status: "o_status (ord_001 u) = SHIPPED"
  by (simp add: ord_001_def)

lemma sony_results: "search_products ascii_lower PRODUCTS (str ''sony'') = [prod_001]"
  by code_simp

lemma prod_001_fields:
  "p_category prod_001 = ELECTRONICS" "p_rating prod_001 = 4.8" "p_brand prod_001 = str ''Sony''"
  by (simp_all add: prod_001_def)

lemma product_ratings:
  "p_rating prod_001 = 4.8" "p_rating prod_002 = 4.9" "p_rating prod_003 = 4.6"
  "p_rating prod_004 = 4.7" "p_rating prod_005 = 4.8" "p_rating prod_006 = 4.7"
  "p_rating prod_007 = 4.5" "p_rating prod_008 = 4.4" "p_rating prod_009 = 4.9"
  "p_rating prod_010 = 4.6"
  by (simp_all add: prod_001_def prod_002_def prod_003_def prod_004_def prod_005_def
      prod_006_def prod_007_def prod_008_def prod_009_def prod_010_def)

lemma sort_by_rating_PRODUCTS:
  "sort_by_rating PRODUCTS
   = [prod_002, prod_009, prod_001, prod_005, prod_004, prod_006, prod_003, prod_010,
      prod_007, prod_008]"
  by (simp add: sort_by_rating_def PRODUCTS_def product_ratings)



section \<open>Tool results\<close>

text \<open>
  C10. With the empty query and no optional filter, the \<open>search_products\<close> tool returns
  the whole catalogue: one summary per product of \<open>PRODUCTS\<close>, in order, and \<open>total = 10\<close>
  (the empty string lowercases to itself and is a substring of every string); the ids
  of the ten entries are \<open>prod-001\<close> to \<open>prod-010\<close>, and every entry carries the id and the
  name of its product. For every query and every filter setting, each product in the
  result is a product of the store that the substring rule matches.
\<close>

theorem C10_empty_query_returns_catalogue:
  "(lower [] = [] \<longrightarrow>
      dispatch_tool lower (mock_data utcnow) (str ''search_products'')
        (no_args\<lparr>arg_query := Some []\<rparr>)
      = (Inr (PDict [(str ''products'', PList (map product_summary PRODUCTS)),
                     (str ''total'', PInt 10), (str ''query'', PStr [])]), mock_data utcnow)
      \<and> length (map product_summary PRODUCTS) = 10)
   \<and> map (\<lambda>entry. dict_get entry (str ''id'')) (map product_summary PRODUCTS)
     = [Some (PStr (str ''prod-001'')), Some (PStr (str ''prod-002'')),
        Some (PStr (str ''prod-003'')), Some (PStr (str ''prod-004'')),
        Some (PStr (str ''prod-005'')), Some (PStr (str ''prod-006'')),
        Some (PStr (str ''prod-007'')), Some (PStr (str ''prod-008'')),
        Some (PStr (str ''prod-009'')), Some (PStr (str ''prod-010''))]
   \<and> dict_get (product_summary p) (str ''id'') = Some (PStr (p_id p))
   \<and> dict_get (product_summary p) (str ''name'') = Some (PStr (p_name p))
   \<and> (arg_query args = Some query \<longrightarrow>
        dispatch_tool lower st (str ''search_products'') args
        = (Inr (PDict [(str ''products'',
                        PList (map product_summary (search_results lower st args query))),
                       (str ''total'', PInt (int (length (search_results lower st args query)))),
                       (str ''query'', PStr query)]), st)
        \<and> (\<forall>p \<in> set (search_results lower st args query).
              p \<in> set (st_products st) \<and> spec_matches lower query p))"
proof (intro conjI impI)
  assume l: "lower [] = []"
  have "spec_matches lower [] p" for p
    by (simp add: spec_matches_def l)
  then have "search_products lower PRODUCTS [] = PRODUCTS"
    by (simp add: search_products_filter)
  then have "search_results lower (mock_data utcnow) (no_args\<lparr>arg_query := Some []\<rparr>) []
             = PRODUCTS"
    by (simp add: search_results_no_filters no_args_def mock_data_def)
  then show "dispatch_tool lower (mock_data utcnow) (str ''search_products'')
        (no_args\<lparr>arg_query := Some []\<rparr>)
      = (Inr (PDict [(str ''products'', PList (map product_summary PRODUCTS)),
                     (str ''total'', PInt 10), (str ''query'', PStr [])]), mock_data utcnow)"
    by (simp add: dispatch_tool_def dispatch_search_products_def length_PRODUCTS)
  show "length (map product_summary PRODUCTS) = 10"
    by (simp add: length_PRODUCTS)
next
  show "map (\<lambda>entry. dict_get entry (str ''id'')) (map product_summary PRODUCTS)
     = [Some (PStr (str ''prod-001'')), Some (PStr (str ''prod-002'')),
        Some (PStr (str ''prod-003'')), Some (PStr (str ''prod-004'')),
        Some (PStr (str ''prod-005'')), Some (PStr (str ''prod-006'')),
        Some (PStr (str ''prod-007'')), Some (PStr (str ''prod-008'')),
        Some (PStr (str ''prod-009'')), Some (PStr (str ''prod-010''))]"
    by (simp add: PRODUCTS_def product_summary_def product_ids)
  show "dict_get (product_summary p) (str ''id'') = Some (PStr (p_id p))"
    by (simp add: product_summary_def)
  show "dict_get (product_summary p) (str ''name'') = Some (PStr (p_name p))"
    by (simp add: product_summary_def)
next
  assume a: "arg_query args = Some query"
  then show "dispatch_tool lower st (str ''search_products'') args
        = (Inr (PDict [(str ''products'',
                        PList (map product_summary (search_results lower st args query))),
                       (str ''total'', PInt (int (length (search_results lower st args query)))),
                       (str ''query'', PStr query)]), st)"
    by (simp add: dispatch_tool_def dispatch_search_products_def Let_def)
  show "\<forall>p \<in> set (search_results lower st args query).
              p \<in> set (st_products st) \<and> spec_matches lower query p"
    using search_results_subset[of lower st args query]
    by (auto simp: search_products_filter)
qed

theorem C10_empty_query_returns_catalogue_witness:
  "dispatch_tool ascii_lower (mock_data (\<lambda>k. 0)) (str ''search_products'')
        (no_args\<lparr>arg_query := Some []\<rparr>)
      = (Inr (PDict [(str ''products'', PList (map product_summary PRODUCTS)),
                     (str ''total'', PInt 10), (str ''query'', PStr [])]), mock_data (\<lambda>k. 0))"
  using C10_empty_query_returns_catalogue
          [of ascii_lower "\<lambda>k. 0" prod_001 "no_args\<lparr>arg_query := Some []\<rparr>" "[]"
              "mock_data (\<lambda>k. 0)"]
        ascii_lower_Nil
  by simp

lemma sublist_not_found_suffix: "sublist (str ''not found'') (xs @ str '' not found'')"
proof -
  have "xs @ str '' not found'' = (xs @ [32]) @ str ''not found'' @ []"
    by (simp add: str_def)
  then show ?thesis
    by (simp only: sublist_appendI)
qed

lemma sublist_not_found_customer: "sublist (str ''not found'') (str ''Customer not found'')"
proof -
  have "str ''Customer not found'' = str ''Customer '' @ str ''not found'' @ []"
    by (simp add: str_def)
  then show ?thesis
    by (simp only: sublist_appendI)
qed

lemma provide_either_no_not_found:
  "\<not> sublist (str ''not found'') (str ''Provide either email or customer_id'')"
  by code_simp

lemma get_customer_by_email_empty:
  "get_customer_by_email ascii_lower (st_customers (mock_data u)) [] = None"
  apply (simp add: get_customer_by_email_def mock_data_def CUSTOMERS_def)
  apply code_simp
  done

text \<open>
  C5. When the identifier of a call matches no stored entity, the MCP dispatcher returns
  a dictionary whose only key is \<open>error\<close>, with a not-found message, and nothing of an
  entity: \<open>get_product_details\<close> and \<open>check_product_availability\<close> for a product id,
  \<open>get_order_status\<close> and \<open>cancel_order\<close> for an order id, \<open>get_customer_profile\<close> for a
  non-empty email, or for a non-empty customer id when the email is absent or empty.
  \<open>get_customer_profile\<close> tests the truth value of its arguments: with the email and the
  customer id both absent or empty it returns the single-key dictionary with the error
  \<open>Provide either email or customer_id\<close>, which carries nothing of an entity and is not a
  not-found indication.
\<close>

theorem C5_not_found:
  "(arg_product_id args = Some pid \<and> get_product_by_id (st_products st) pid = None \<longrightarrow>
      dispatch_tool lower st (str ''get_product_details'') args
      = (Inr (PDict [(str ''error'', PStr (str ''Product '' @ pid @ str '' not found''))]), st)
      \<and> dispatch_tool lower st (str ''check_product_availability'') args
        = (Inr (PDict [(str ''error'', PStr (str ''Product '' @ pid @ str '' not found''))]), st))
   \<and> (arg_order_id args = Some oid \<and> get_order_by_id (st_orders st) oid = None \<longrightarrow>
      dispatch_tool lower st (str ''get_order_status'') args
      = (Inr (PDict [(str ''error'', PStr (str ''Order '' @ oid @ str '' not found''))]), st)
      \<and> dispatch_tool lower st (str ''cancel_order'') args
        = (Inr (PDict [(str ''error'', PStr (str ''Order '' @ oid @ str '' not found''))]), st))
   \<and> (arg_email args = Some email \<and> email \<noteq> []
       \<and> get_customer_by_email lower (st_customers st) email = None \<longrightarrow>
      dispatch_tool lower st (str ''get_customer_profile'') args
      = (Inr (PDict [(str ''error'', PStr (str ''Customer not found''))]), st))
   \<and> (\<not> truthy_str (arg_email args) \<and> arg_customer_id args = Some cid \<and> cid \<noteq> []
       \<and> get_customer_by_id (st_customers st) cid = None \<longrightarrow>
      dispatch_tool lower st (str ''get_customer_profile'') args
      = (Inr (PDict [(str ''error'', PStr (str ''Customer not found''))]), st))
   \<and> (\<not> truthy_str (arg_email args) \<and> \<not> truthy_str (arg_customer_id args) \<longrightarrow>
      dispatch_tool lower st (str ''get_customer_profile'') args
      = (Inr (PDict [(str ''error'', PStr (str ''Provide either email or customer_id''))]), st))
   \<and> not_found_payload (PDict [(str ''error'', PStr (str ''Product '' @ pid @ str '' not found''))])
   \<and> not_found_payload (PDict [(str ''error'', PStr (str ''Order '' @ oid @ str '' not found''))])
   \<and> not_found_payload (PDict [(str ''error'', PStr (str ''Customer not found''))])
   \<and> \<not> not_found_payload
         (PDict [(str ''error'', PStr (str ''Provide either email or customer_id''))])"
proof -
  have nf: "not_found_payload (PDict [(str ''error'', PStr (xs @ ys @ str '' not found''))])"
    for xs ys
    using sublist_not_found_suffix [of "xs @ ys"] by simp
  have calls:
    "(arg_product_id args = Some pid \<and> get_product_by_id (st_products st) pid = None \<longrightarrow>
      dispatch_tool lower st (str ''get_product_details'') args
      = (Inr (PDict [(str ''error'', PStr (str ''Product '' @ pid @ str '' not found''))]), st)
      \<and> dispatch_tool lower st (str ''check_product_availability'') args
        = (Inr (PDict [(str ''error'', PStr (str ''Product '' @ pid @ str '' not found''))]), st))
   \<and> (arg_order_id args = Some oid \<and> get_order_by_id (st_orders st) oid = None \<longrightarrow>
      dispatch_tool lower st (str ''get_order_status'') args
      = (Inr (PDict [(str ''error'', PStr (str ''Order '' @ oid @ str '' not found''))]), st)
      \<and> dispatch_tool lower st (str ''cancel_order'') args
        = (Inr (PDict [(str ''error'', PStr (str ''Order '' @ oid @ str '' not found''))]), st))
   \<and> (arg_email args = Some email \<and> email \<noteq> []
       \<and> get_customer_by_email lower (st_customers st) email = None \<longrightarrow>
      dispatch_tool lower st (str ''get_customer_profile'') args
      = (Inr (PDict [(str ''error'', PStr (str ''Customer not found''))]), st))
   \<and> (\<not> truthy_str (arg_email args) \<and> arg_customer_id args = Some cid \<and> cid \<noteq> []
       \<and> get_customer_by_id (st_customers st) cid = None \<longrightarrow>
      dispatch_tool lower st (str ''get_customer_profile'') args
      = (Inr (PDict [(str ''error'', PStr (str ''Customer not found''))]), st))
   \<and> (\<not> truthy_str (arg_email args) \<and> \<not> truthy_str (arg_customer_id args) \<longrightarrow>
      dispatch_tool lower st (str ''get_customer_profile'') args
      = (Inr (PDict [(str ''error'', PStr (str ''Provide either email or customer_id''))]), st))"
    by (simp add: dispatch_tool_def dispatch_get_product_details_def
        dispatch_check_product_availability_def dispatch_get_order_status_def
        dispatch_cancel_order_def dispatch_get_customer_profile_def customer_profile_payload_def)
  have c: "not_found_payload (PDict [(str ''error'', PStr (str ''Customer not found''))])"
    by (simp add: sublist_not_found_customer)
  have n: "\<not> not_found_payload
         (PDict [(str ''error'', PStr (str ''Provide either email or customer_id''))])"
    by (simp add: provide_either_no_not_found)
  from calls nf [of "str ''Product ''" pid] nf [of "str ''Order ''" oid] c n
  show ?thesis
    by blast
qed

theorem C5_not_found_witness:
  "dispatch_tool ascii_lower (mock_data (\<lambda>k. 0)) (str ''get_product_details'')
     (no_args\<lparr>arg_product_id := Some (str ''prod-999''), arg_order_id := Some (str ''ord-999''),
       arg_email := Some (str ''nobody@example.com'')\<rparr>)
   = (Inr (PDict [(str ''error'', PStr (str ''Product '' @ str ''prod-999'' @ str '' not found''))]),
      mock_data (\<lambda>k. 0))
   \<and> dispatch_tool ascii_lower (mock_data (\<lambda>k. 0)) (str ''cancel_order'')
     (no_args\<lparr>arg_product_id := Some (str ''prod-999''), arg_order_id := Some (str ''ord-999''),
       arg_email := Some (str ''nobody@example.com'')\<rparr>)
   = (Inr (PDict [(str ''error'', PStr (str ''Order '' @ str ''ord-999'' @ str '' not found''))]),
      mock_data (\<lambda>k. 0))
   \<and> dispatch_tool ascii_lower (mock_data (\<lambda>k. 0)) (str ''get_customer_profile'')
     (no_args\<lparr>arg_product_id := Some (str ''prod-999''), arg_order_id := Some (str ''ord-999''),
       arg_email := Some (str ''nobody@example.com'')\<rparr>)
   = (Inr (PDict [(str ''error'', PStr (str ''Customer not found''))]), mock_data (\<lambda>k. 0))
   \<and> dispatch_tool ascii_lower (mock_data (\<lambda>k. 0)) (str ''get_customer_profile'')
     (no_args\<lparr>arg_customer_id := Some (str ''cust-999'')\<rparr>)
   = (Inr (PDict [(str ''error'', PStr (str ''Customer not found''))]), mock_data (\<lambda>k. 0))
   \<and> dispatch_tool ascii_lower (mock_data (\<lambda>k. 0)) (str ''get_customer_profile'') no_args
   = (Inr (PDict [(str ''error'', PStr (str ''Provide either email or customer_id''))]),
      mock_data (\<lambda>k. 0))"
  using C5_not_found
          [of "no_args\<lparr>arg_product_id := Some (str ''prod-999''),
                 arg_order_id := Some (str ''ord-999''),
                 arg_email := Some (str ''nobody@example.com'')\<rparr>"
              "str ''prod-999''" "mock_data (\<lambda>k. 0)" ascii_lower "str ''ord-999''"
              "str ''nobody@example.com''" "[]"]
        C5_not_found
          [of "no_args\<lparr>arg_customer_id := Some (str ''cust-999'')\<rparr>"
              "[]" "mock_data (\<lambda>k. 0)" ascii_lower "[]" "[]" "str ''cust-999''"]
        C5_not_found [of no_args "[]" "mock_data (\<lambda>k. 0)" ascii_lower "[]" "[]" "[]"]
        get_product_by_id_missing [of "\<lambda>k. 0"] get_order_by_id_missing [of "\<lambda>k. 0"]
        get_customer_by_email_missing [of "\<lambda>k. 0"] get_customer_by_id_missing [of "\<lambda>k. 0"]
  by (simp add: no_args_def)

text \<open>
  \<open>get_customer_profile\<close> with the empty string as email: no stored customer has that
  email, and the result is the error \<open>Provide either email or customer_id\<close>, which is
  not a not-found indication.
\<close>

theorem C5_empty_email_counterexample:
  "get_customer_by_email ascii_lower (st_customers (mock_data clock_standing)) [] = None
   \<and> fst (dispatch_tool ascii_lower (mock_data clock_standing) (str ''get_customer_profile'')
            (no_args\<lparr>arg_email := Some []\<rparr>))
     = Inr (PDict [(str ''error'', PStr (str ''Provide either email or customer_id''))])
   \<and> \<not> not_found_payload
         (PDict [(str ''error'', PStr (str ''Provide either email or customer_id''))])"
  by (simp add: get_customer_by_email_empty dispatch_tool_def dispatch_get_customer_profile_def
      no_args_def provide_either_no_not_found)

text \<open>
  C2. For an order whose status is neither \<open>pending\<close> nor \<open>confirmed\<close>, \<open>cancel_order\<close>
  returns \<open>cancellable: false\<close> and an error message that ends with the order's current
  status; the store after the call is the store before it, so the order is still stored
  with the same status, and a second call returns the same payload. This holds for the MCP
  dispatcher and for the order agent's fallback (whose message is in Turkish).
\<close>

theorem C2_cancel_ineligible:
  "arg_order_id args = Some oid \<and> get_order_by_id (st_orders st) oid = Some order
   \<and> o_status order \<noteq> PENDING \<and> o_status order \<noteq> CONFIRMED \<longrightarrow>
     dispatch_tool lower st (str ''cancel_order'') args
     = (Inr (PDict [(str ''error'',
                     PStr (str ''Order cannot be cancelled. Current status: ''
                           @ OrderStatus_value (o_status order))),
                    (str ''cancellable'', PBool False)]), st)
     \<and> dispatch_tool lower (snd (dispatch_tool lower st (str ''cancel_order'') args))
         (str ''cancel_order'') args
       = dispatch_tool lower st (str ''cancel_order'') args
     \<and> order_direct_tool_call lower st (str ''cancel_order'') args
       = (Inr (PDict [(str ''error'',
                       PStr (str ''Sipari'' @ [351] @ str '' iptal edilemiyor. Mevcut durum: ''
                             @ OrderStatus_value (o_status order))),
                      (str ''cancellable'', PBool False)]), st)
     \<and> order_direct_tool_call lower (snd (order_direct_tool_call lower st (str ''cancel_order'') args))
         (str ''cancel_order'') args
       = order_direct_tool_call lower st (str ''cancel_order'') args
     \<and> get_order_by_id (st_orders (snd (dispatch_tool lower st (str ''cancel_order'') args))) oid
       = Some order
     \<and> get_order_by_id
         (st_orders (snd (order_direct_tool_call lower st (str ''cancel_order'') args))) oid
       = Some order"
  by (simp add: dispatch_tool_def dispatch_cancel_order_def order_direct_tool_call_def
      order_direct_cancel_order_def)

theorem C2_cancel_ineligible_witness:
  "dispatch_tool ascii_lower (mock_data (\<lambda>k. 0)) (str ''cancel_order'')
     (no_args\<lparr>arg_order_id := Some (str ''ord-001'')\<rparr>)
   = (Inr (PDict [(str ''error'',
                   PStr (str ''Order cannot be cancelled. Current status: '' @ str ''shipped'')),
                  (str ''cancellable'', PBool False)]), mock_data (\<lambda>k. 0))"
  using C2_cancel_ineligible
          [of "no_args\<lparr>arg_order_id := Some (str ''ord-001'')\<rparr>" "str ''ord-001''"
              "mock_data (\<lambda>k. 0)" "ord_001 (\<lambda>k. 0)" ascii_lower]
        get_order_by_id_ord_001 [of "\<lambda>k. 0"] ord_001_status [of "\<lambda>k. 0"]
  by simp

text \<open>
  C3. The fallback and the dispatcher are not the same function. For the tool name
  \<open>check_product_availability\<close>, which the product agent passes to \<open>_call_mcp_tool\<close>, the
  dispatcher returns the availability of \<open>prod-001\<close> and the product agent's fallback
  returns an error saying that the tool is not available. For \<open>search_products\<close> with
  the query \<open>sony\<close> and \<open>min_rating = 4.9\<close> the dispatcher returns no product (the one
  match is rated 4.8) and the fallback, which has no \<open>min_rating\<close> filter, returns it,
  with seven fields where the dispatcher's summary has eleven. For \<open>get_recommendations\<close>
  with \<open>limit = 1\<close> the dispatcher returns the one best-rated product and the fallback,
  which reads no argument, the first four, with four fields each.
\<close>

theorem C3_fallback_differs:
  "fst (dispatch_tool ascii_lower (mock_data (\<lambda>k. 0)) (str ''check_product_availability'')
          (no_args\<lparr>arg_product_id := Some (str ''prod-001'')\<rparr>))
   = Inr (PDict [(str ''product_id'', PStr (str ''prod-001'')),
                 (str ''name'', PStr (str ''Sony WH-1000XM5 Kablosuz Kulakl'' @ [305] @ str ''k'')),
                 (str ''in_stock'', PBool True),
                 (str ''stock_count'', PInt 45),
                 (str ''price'', PFloat 899.99),
                 (str ''original_price'', PFloat 1099.99),
                 (str ''discount_percentage'', PFloat 18.2)])
   \<and> fst (product_direct_tool_call ascii_lower (mock_data (\<lambda>k. 0))
             (str ''check_product_availability'')
             (no_args\<lparr>arg_product_id := Some (str ''prod-001'')\<rparr>))
     = Inr (PDict [(str ''error'',
                    PStr (str ''Tool '' @ str ''check_product_availability''
                          @ str '' not available in fallback''))])
   \<and> fst (dispatch_tool ascii_lower (mock_data (\<lambda>k. 0)) (str ''search_products'')
            (no_args\<lparr>arg_query := Some (str ''sony''), arg_min_rating := Some 4.9\<rparr>))
     = Inr (PDict [(str ''products'', PList []), (str ''total'', PInt 0),
                   (str ''query'', PStr (str ''sony''))])
   \<and> fst (product_direct_tool_call ascii_lower (mock_data (\<lambda>k. 0)) (str ''search_products'')
            (no_args\<lparr>arg_query := Some (str ''sony''), arg_min_rating := Some 4.9\<rparr>))
     = Inr (PDict [(str ''products'',
                    PList [PDict [(str ''id'', PStr (str ''prod-001'')),
                                  (str ''name'',
                                   PStr (str ''Sony WH-1000XM5 Kablosuz Kulakl'' @ [305] @ str ''k'')),
                                  (str ''price'', PFloat 899.99),
                                  (str ''rating'', PFloat 4.8),
                                  (str ''in_stock'', PBool True),
                                  (str ''brand'', PStr (str ''Sony'')),
                                  (str ''category'', PStr (str ''electronics''))]]),
                   (str ''total'', PInt 1)])
   \<and> fst (dispatch_tool ascii_lower (mock_data (\<lambda>k. 0)) (str ''get_recommendations'')
            (no_args\<lparr>arg_limit := Some 1\<rparr>))
     = Inr (PDict [(str ''recommendations'', PList [product_summary prod_002])])
   \<and> fst (product_direct_tool_call ascii_lower (mock_data (\<lambda>k. 0)) (str ''get_recommendations'')
            (no_args\<lparr>arg_limit := Some 1\<rparr>))
     = Inr (PDict [(str ''recommendations'',
                    PList (map (\<lambda>p. PDict [(str ''id'', PStr (p_id p)),
                                           (str ''name'', PStr (p_name p)),
                                           (str ''price'', PFloat (p_price p)),
                                           (str ''rating'', PFloat (p_rating p))])
                             [prod_002, prod_009, prod_001, prod_005]))])"
proof (intro conjI)
  show "fst (dispatch_tool ascii_lower (mock_data (\<lambda>k. 0)) (str ''check_product_availability'')
          (no_args\<lparr>arg_product_id := Some (str ''prod-001'')\<rparr>))
   = Inr (PDict [(str ''product_id'', PStr (str ''prod-001'')),
                 (str ''name'', PStr (str ''Sony WH-1000XM5 Kablosuz Kulakl'' @ [305] @ str ''k'')),
                 (str ''in_stock'', PBool True),
                 (str ''stock_count'', PInt 45),
                 (str ''price'', PFloat 899.99),
                 (str ''original_price'', PFloat 1099.99),
                 (str ''discount_percentage'', PFloat 18.2)])"
    by (simp add: dispatch_tool_def dispatch_check_product_availability_def
        get_product_by_id_prod_001 product_ids prod_001_availability
        discount_percentage_prod_001)
  show "fst (product_direct_tool_call ascii_lower (mock_data (\<lambda>k. 0))
             (str ''check_product_availability'')
             (no_args\<lparr>arg_product_id := Some (str ''prod-001'')\<rparr>))
     = Inr (PDict [(str ''error'',
                    PStr (str ''Tool '' @ str ''check_product_availability''
                          @ str '' not available in fallback''))])"
    by (simp add: product_direct_tool_call_def)
  show "fst (dispatch_tool ascii_lower (mock_data (\<lambda>k. 0)) (str ''search_products'')
            (no_args\<lparr>arg_query := Some (str ''sony''), arg_min_rating := Some 4.9\<rparr>))
     = Inr (PDict [(str ''products'', PList []), (str ''total'', PInt 0),
                   (str ''query'', PStr (str ''sony''))])"
    by (simp add: dispatch_tool_def dispatch_search_products_def no_args_def mock_data_def
        search_results_def filter_in_stock_def filter_min_rating_def filter_max_price_def
        filter_category_def sony_results prod_001_fields)
  show "fst (product_direct_tool_call ascii_lower (mock_data (\<lambda>k. 0)) (str ''search_products'')
            (no_args\<lparr>arg_query := Some (str ''sony''), arg_min_rating := Some 4.9\<rparr>))
     = Inr (PDict [(str ''products'',
                    PList [PDict [(str ''id'', PStr (str ''prod-001'')),
                                  (str ''name'',
                                   PStr (str ''Sony WH-1000XM5 Kablosuz Kulakl'' @ [305] @ str ''k'')),
                                  (str ''price'', PFloat 899.99),
                                  (str ''rating'', PFloat 4.8),
                                  (str ''in_stock'', PBool True),
                                  (str ''brand'', PStr (str ''Sony'')),
                                  (str ''category'', PStr (str ''electronics''))]]),
                   (str ''total'', PInt 1)])"
    by (simp add: product_direct_tool_call_def product_direct_search_products_def no_args_def
        mock_data_def filter_in_stock_def filter_max_price_def filter_category_def sony_results
        prod_001_fields prod_001_availability product_ids)
  show "fst (dispatch_tool ascii_lower (mock_data (\<lambda>k. 0)) (str ''get_recommendations'')
            (no_args\<lparr>arg_limit := Some 1\<rparr>))
     = Inr (PDict [(str ''recommendations'', PList [product_summary prod_002])])"
    by (simp add: dispatch_tool_def dispatch_get_recommendations_def
        recommendations_by_category_def recommendations_payload_def limit_of_def slice_to_def
        no_args_def mock_data_def sort_by_rating_PRODUCTS)
  show "fst (product_direct_tool_call ascii_lower (mock_data (\<lambda>k. 0)) (str ''get_recommendations'')
            (no_args\<lparr>arg_limit := Some 1\<rparr>))
     = Inr (PDict [(str ''recommendations'',
                    PList (map (\<lambda>p. PDict [(str ''id'', PStr (p_id p)),
                                           (str ''name'', PStr (p_name p)),
                                           (str ''price'', PFloat (p_price p)),
                                           (str ''rating'', PFloat (p_rating p))])
                             [prod_002, prod_009, prod_001, prod_005]))])"
    by (simp add: product_direct_tool_call_def product_direct_get_recommendations_def
        mock_data_def sort_by_rating_PRODUCTS)
qed






section \<open>Web search without credentials\<close>

text \<open>
  C8. With an empty \<open>tavily_api_key\<close> each of the six web-search tools returns its
  search-disabled payload, a \<open>message\<close> and \<open>results = []\<close> with no \<open>error\<close> key, and has
  sent no request to the search service, whatever the service would have answered.
\<close>

theorem C8_search_disabled:
  "tavily_api_key cfg = [] \<longrightarrow>
     web_search cfg search query search_depth
     = (PDict [(str ''message'',
                PStr (str ''TAVILY_API_KEY yap'' @ [305] @ str ''land'' @ [305] @ str ''r'' @ [305]
                      @ str ''lmam'' @ [305, 351] @ str ''. Web aramas'' @ [305] @ str '' devre d''
                      @ [305, 351, 305] @ str ''.'')),
               (str ''results'', PList [])], [])
     \<and> compare_prices cfg search product_name
       = (PDict [(str ''message'',
                  PStr (str ''Web aramas'' @ [305] @ str '' devre d'' @ [305, 351, 305] @ str ''.'')),
                 (str ''results'', PList [])], [])
     \<and> get_product_reviews_web cfg search product_name
       = (PDict [(str ''message'',
                  PStr (str ''Web aramas'' @ [305] @ str '' devre d'' @ [305, 351, 305] @ str ''.'')),
                 (str ''results'', PList [])], [])
     \<and> get_trending_products cfg search category
       = (PDict [(str ''message'',
                  PStr (str ''Web aramas'' @ [305] @ str '' devre d'' @ [305, 351, 305] @ str ''.'')),
                 (str ''results'', PList [])], [])
     \<and> web_search_products cfg search query
       = (PDict [(str ''message'', PStr (str ''Web search not configured (no TAVILY_API_KEY)'')),
                 (str ''results'', PList [])], [])
     \<and> web_search_shipping cfg search query
       = (PDict [(str ''message'',
                  PStr (str ''Web aramas'' @ [305] @ str '' yap'' @ [305] @ str ''land'' @ [305]
                        @ str ''r'' @ [305] @ str ''lmam'' @ [305, 351]
                        @ str '' (TAVILY_API_KEY eksik)'')),
                 (str ''results'', PList [])], [])"
  by (simp add: web_search_def compare_prices_def get_product_reviews_web_def
      get_trending_products_def web_search_products_def web_search_shipping_def
      search_disabled_def)

theorem C8_search_disabled_witness:
  "web_search_products \<lparr>tavily_api_key = []\<rparr> (\<lambda>r. Inl (Exception (str ''no network'')))
     (str ''kulaklik'')
   = (PDict [(str ''message'', PStr (str ''Web search not configured (no TAVILY_API_KEY)'')),
             (str ''results'', PList [])], [])
   \<and> compare_prices \<lparr>tavily_api_key = []\<rparr> (\<lambda>r. Inl (Exception (str ''no network'')))
       (str ''Sony'')
     = (PDict [(str ''message'',
                PStr (str ''Web aramas'' @ [305] @ str '' devre d'' @ [305, 351, 305] @ str ''.'')),
               (str ''results'', PList [])], [])"
  using C8_search_disabled
          [of "\<lparr>tavily_api_key = []\<rparr>" "\<lambda>r. Inl (Exception (str ''no network''))"
              "str ''kulaklik''" "str ''basic''" "str ''Sony''" "str ''books''"]
  by simp

section \<open>Delegation\<close>

text \<open>
  C4. When the transport raises an exception, \<open>_delegate_to_agent\<close> returns a string: the
  agent's name, a fixed text and the first 100 characters of the exception's message. The
  string starts with the agent's name, and the quoted reason is at most 100 characters
  long. (The function returns a string for every outcome of the transport: an exception
  is a value of the model and the handler maps each one to a string.)
\<close>

theorem C4_delegation_failure:
  "send_message agent_url query = Inl e \<longrightarrow>
     delegate_to_agent send_message agent_url query agent_name
     = agent_name @ str '' '' @ [351] @ str ''u anda ula'' @ [351, 305] @ str ''lam'' @ [305]
       @ str ''yor ('' @ take 100 (exn_str e) @ str ''). L'' @ [252]
       @ str ''tfen daha sonra tekrar deneyin.''
     \<and> length (take 100 (exn_str e)) \<le> 100
     \<and> prefix agent_name (delegate_to_agent send_message agent_url query agent_name)"
  by (simp add: delegate_to_agent_def)

theorem C4_delegation_failure_witness:
  "delegate_to_agent (\<lambda>url q. Inl (Exception (replicate 150 120))) (str ''http://order-agent:8005'')
     (str ''ord-001'') (str ''Order Agent'')
   = str ''Order Agent'' @ str '' '' @ [351] @ str ''u anda ula'' @ [351, 305] @ str ''lam'' @ [305]
     @ str ''yor ('' @ replicate 100 120 @ str ''). L'' @ [252]
     @ str ''tfen daha sonra tekrar deneyin.''"
  using C4_delegation_failure
          [of "\<lambda>url q. Inl (Exception (replicate 150 120))" "str ''http://order-agent:8005''"
              "str ''ord-001''" "Exception (replicate 150 120)" "str ''Order Agent''"]
  by simp

text \<open>
  C7. For a task response with a non-empty artifact list the returned text is the text of
  the artifacts' parts, whatever the status message is, or the fixed fallback (the agent's
  name and a fixed text saying that it gave no answer) when the artifacts hold no text.
  Only with no
  artifact (none, or an empty list) is the status message read: the returned text is the
  text of its parts, or the fallback when there is no message or it holds no text. The text
  never mixes the two sources.
\<close>

theorem C7_extraction_precedence:
  "send_message agent_url query = Inr (SuccessResponse (TaskResult t)) \<longrightarrow>
     (at_artifacts t = Some arts \<and> arts \<noteq> [] \<longrightarrow>
        delegate_to_agent send_message agent_url query agent_name
        = (if artifacts_text arts \<noteq> [] then artifacts_text arts
           else agent_name @ str '' yan'' @ [305] @ str ''t vermedi.''))
     \<and> (at_artifacts t = None \<or> at_artifacts t = Some [] \<longrightarrow>
        delegate_to_agent send_message agent_url query agent_name
        = (case at_status_message t of
             Some msg \<Rightarrow>
               if parts_text msg \<noteq> [] then parts_text msg
               else agent_name @ str '' yan'' @ [305] @ str ''t vermedi.''
           | None \<Rightarrow> agent_name @ str '' yan'' @ [305] @ str ''t vermedi.''))"
  by (auto simp: delegate_to_agent_def extract_text_def Let_def
      split: option.splits list.splits)

theorem C7_extraction_precedence_witness:
  "delegate_to_agent
     (\<lambda>url q. Inr (SuccessResponse (TaskResult
        \<lparr>at_artifacts = Some [[TextPart (str ''kargoda''), DataPart]],
         at_status_message = Some [TextPart (str ''working'')]\<rparr>)))
     (str ''http://order-agent:8005'') (str ''ord-001'') (str ''Order Agent'')
   = str ''kargoda''
   \<and> delegate_to_agent
     (\<lambda>url q. Inr (SuccessResponse (TaskResult
        \<lparr>at_artifacts = None, at_status_message = Some [TextPart (str ''hata'')]\<rparr>)))
     (str ''http://order-agent:8005'') (str ''ord-001'') (str ''Order Agent'')
   = str ''hata''"
  using C7_extraction_precedence
          [of "\<lambda>url q. Inr (SuccessResponse (TaskResult
                 \<lparr>at_artifacts = Some [[TextPart (str ''kargoda''), DataPart]],
                  at_status_message = Some [TextPart (str ''working'')]\<rparr>))"
              "str ''http://order-agent:8005''" "str ''ord-001''"
              "\<lparr>at_artifacts = Some [[TextPart (str ''kargoda''), DataPart]],
                at_status_message = Some [TextPart (str ''working'')]\<rparr>"
              "[[TextPart (str ''kargoda''), DataPart]]" "str ''Order Agent''"]
        C7_extraction_precedence
          [of "\<lambda>url q. Inr (SuccessResponse (TaskResult
                 \<lparr>at_artifacts = None, at_status_message = Some [TextPart (str ''hata'')]\<rparr>))"
              "str ''http://order-agent:8005''" "str ''ord-001''"
              "\<lparr>at_artifacts = None, at_status_message = Some [TextPart (str ''hata'')]\<rparr>"
              "[]" "str ''Order Agent''"]
  by simp

section \<open>Task lifecycle\<close>

lemma events_of_map_Enqueue [simp]: "events_of (map Enqueue es) = es"
  by (induction es) simp_all

lemma events_of_append [simp]: "events_of (xs @ ys) = events_of xs @ events_of ys"
  by (induction xs rule: events_of.induct) simp_all

lemma event_states_append [simp]: "event_states (xs @ ys) = event_states xs @ event_states ys"
  by (induction xs rule: event_states.induct) simp_all










end
